theory Spec2Isabelle
  imports Main
begin

section \<open>Values of the JavaScript runtime\<close>

text \<open>
  The two tools of \<^verbatim>\<open>src/mcp/github-file-ops-server.ts\<close>, \<^verbatim>\<open>commit_files\<close> and
  \<^verbatim>\<open>delete_files\<close>, are embedded as functions that return the value handed to the
  caller together with the sequence of external effects they issued (HTTP exchanges and
  local file reads), in the order of issue. The writes to \<^verbatim>\<open>console.error\<close> are
  diagnostics and are left out. Line numbers refer to that file.

  A thrown value is kept as far as the catch blocks look at it: whether it is an
  \<^verbatim>\<open>Error\<close>, its \<^verbatim>\<open>message\<close> and \<^verbatim>\<open>stack\<close> properties (the empty string stands for
  a property that is absent, since the code only tests them for truthiness) and its
  string coercion.
\<close>

record thrown =
  instanceof_Error :: bool
  message :: string
  stack :: string
  to_String :: string

definition truthy :: "string \<Rightarrow> bool" where
  "truthy s = (s \<noteq> [])"

text \<open>\<^verbatim>\<open>new Error(m)\<close>; the stack is the header line followed by frames (elided).\<close>

definition new_Error :: "string \<Rightarrow> thrown" where
  "new_Error m =
     \<lparr>instanceof_Error = True,
      message = m,
      stack = (if m = [] then ''Error'' else ''Error: '' @ m) @ [CHR 0x0A] @ ''    at <anonymous>'',
      to_String = (if m = [] then ''Error'' else ''Error: '' @ m)\<rparr>"

text \<open>A number inside a template literal: its decimal digits.\<close>

function string_of_nat :: "nat \<Rightarrow> string" where
  "string_of_nat n =
     (if n < 10 then [''0123456789'' ! n]
      else string_of_nat (n div 10) @ [''0123456789'' ! (n mod 10)])"
  by pat_completeness auto
termination
  by (relation "measure id") auto

declare string_of_nat.simps [simp del]

text \<open>\<^verbatim>\<open>s.startsWith("/")\<close>, \<^verbatim>\<open>s.startsWith(p)\<close> and \<^verbatim>\<open>s.slice(n)\<close> for \<open>n \<ge> 0\<close>.\<close>

definition startsWith_slash :: "string \<Rightarrow> bool" where
  "startsWith_slash s = (case s of [] \<Rightarrow> False | c # _ \<Rightarrow> c = CHR ''/'')"

definition startsWith :: "string \<Rightarrow> string \<Rightarrow> bool" where
  "startsWith s p = (take (length p) s = p)"

definition slice :: "string \<Rightarrow> nat \<Rightarrow> string" where
  "slice s n = drop n s"

section \<open>The host process and the remote service\<close>

text \<open>
  The host gives the process environment, \<^verbatim>\<open>process.cwd()\<close>, \<^verbatim>\<open>path.join\<close> and
  \<^verbatim>\<open>readFile(p, "utf-8")\<close> of the Node standard library (parameters of the model), and
  which of several rejected reads \<^verbatim>\<open>Promise.all\<close> observes first: the reads of step 3
  run concurrently, so the rejection that wins is the host's choice.
\<close>

record host =
  GITHUB_TOKEN :: "string option"
  REPO_OWNER :: string
  REPO_NAME :: string
  BRANCH_NAME :: string
  env_REPO_DIR :: "string option"
  env_GITHUB_API_URL :: "string option"
  cwd :: string
  join :: "string \<Rightarrow> string \<Rightarrow> string"
  readFile :: "string \<Rightarrow> thrown + string"
  rejects_first :: "string list \<Rightarrow> nat"

text \<open>\<^verbatim>\<open>process.env.X || fallback\<close>\<close>

definition or_else :: "string option \<Rightarrow> string \<Rightarrow> string" where
  "or_else v d = (case v of None \<Rightarrow> d | Some s \<Rightarrow> if truthy s then s else d)"

definition GITHUB_API_URL :: "host \<Rightarrow> string" where
  "GITHUB_API_URL h = or_else (env_GITHUB_API_URL h) ''https://api.github.com''"

definition REPO_DIR :: "host \<Rightarrow> string" where
  "REPO_DIR h = or_else (env_REPO_DIR h) (cwd h)"

text \<open>The response types the source declares, with a selector for each access path.\<close>

datatype GitHubRef = GitHubRef (object_sha: string)

datatype GitHubCommit = GitHubCommit (tree_sha: string)

datatype GitHubTree = GitHubTree (sha: string)

datatype GitHubNewCommit =
  GitHubNewCommit (commit_sha: string) (commit_message: string)
    (author_name: string) (author_date: string)

text \<open>
  A response: its status, and what \<^verbatim>\<open>text()\<close> and \<^verbatim>\<open>json()\<close> give (either may throw).
  \<^verbatim>\<open>json()\<close> is typed by the cast at its call site. \<^verbatim>\<open>ok\<close> is a status of 200 to 299.
\<close>

record 'a response =
  status :: nat
  body_text :: "thrown + string"
  body_json :: "thrown + 'a"

definition ok :: "'a response \<Rightarrow> bool" where
  "ok r = (200 \<le> status r \<and> status r < 300)"

datatype 'a fetched = Rejects thrown | Resolves "'a response"

datatype entry_value = content string | sha_null

record tree_entry =
  path :: string
  mode :: string
  entry_type :: string
  entry_value :: entry_value

datatype body =
    tree_body string "tree_entry list"
  | commit_body string string "string list"
  | ref_body string bool

record request =
  http_method :: string
  url :: string
  headers :: "(string \<times> string) list"
  body :: "body option"

text \<open>
  The remote service answers \<^verbatim>\<open>fetch\<close>; one field for each of the five call sites,
  since each call site casts the parsed body to its own type. An invocation reaches each
  call site at most once, so a reply for each call site describes every remote, also one
  whose state changes between the calls; what the remote does with a request is not part
  of the model.
\<close>

record remote =
  fetch_ref :: "request \<Rightarrow> GitHubRef fetched"
  fetch_commit :: "request \<Rightarrow> GitHubCommit fetched"
  fetch_create_tree :: "request \<Rightarrow> GitHubTree fetched"
  fetch_create_commit :: "request \<Rightarrow> GitHubNewCommit fetched"
  fetch_update_ref :: "request \<Rightarrow> unit fetched"

text \<open>The external effects of an invocation, in the order they are issued.\<close>

datatype exchange =
    Get_ref request "GitHubRef fetched"
  | Get_commit request "GitHubCommit fetched"
  | Read_file string "thrown + string"
  | Post_tree request "GitHubTree fetched"
  | Post_commit request "GitHubNewCommit fetched"
  | Patch_ref request "unit fetched"

type_synonym 'a io = "(thrown + 'a) \<times> exchange list"

definition io_bind :: "'a io \<Rightarrow> ('a \<Rightarrow> 'b io) \<Rightarrow> 'b io" where
  "io_bind m f =
     (case m of
        (Inl e, tr) \<Rightarrow> (Inl e, tr)
      | (Inr a, tr) \<Rightarrow> (case f a of (r, tr') \<Rightarrow> (r, tr @ tr')))"

section \<open>The six steps\<close>

definition read_headers :: "string \<Rightarrow> (string \<times> string) list" where
  "read_headers token =
     [(''Accept'', ''application/vnd.github+json''),
      (''Authorization'', ''Bearer '' @ token),
      (''X-GitHub-Api-Version'', ''2022-11-28'')]"

definition write_headers :: "string \<Rightarrow> (string \<times> string) list" where
  "write_headers token =
     read_headers token @ [(''Content-Type'', ''application/json'')]"

definition repo_url :: "host \<Rightarrow> string" where
  "repo_url h = GITHUB_API_URL h @ ''/repos/'' @ REPO_OWNER h @ ''/'' @ REPO_NAME h"

definition refUrl :: "host \<Rightarrow> string" where
  "refUrl h = repo_url h @ ''/git/refs/heads/'' @ BRANCH_NAME h"

definition commitUrl :: "host \<Rightarrow> string \<Rightarrow> string" where
  "commitUrl h baseSha = repo_url h @ ''/git/commits/'' @ baseSha"

definition treeUrl :: "host \<Rightarrow> string" where
  "treeUrl h = repo_url h @ ''/git/trees''"

definition newCommitUrl :: "host \<Rightarrow> string" where
  "newCommitUrl h = repo_url h @ ''/git/commits''"

text \<open>
  Step 1 (lines 109 to 126, and 369 to 386): get the branch reference; the result is
  \<^verbatim>\<open>baseSha\<close>.
\<close>

definition ref_request :: "host \<Rightarrow> string \<Rightarrow> request" where
  "ref_request h token =
     \<lparr>http_method = ''GET'', url = refUrl h, headers = read_headers token, body = None\<rparr>"

definition get_branch_reference :: "host \<Rightarrow> remote \<Rightarrow> string \<Rightarrow> string io" where
  "get_branch_reference h r token =
     (let req = ref_request h token; refResponse = fetch_ref r req in
      ((case refResponse of
          Rejects e \<Rightarrow> Inl e
        | Resolves resp \<Rightarrow>
            if \<not> ok resp
            then Inl (new_Error (''Failed to get branch reference: '' @ string_of_nat (status resp)))
            else (case body_json resp of
                    Inl e \<Rightarrow> Inl e
                  | Inr refData \<Rightarrow> Inr (object_sha refData))),
       [Get_ref req refResponse]))"

text \<open>
  Step 2 (lines 128 to 143, and 388 to 403): get the base commit; the result is
  \<^verbatim>\<open>baseTreeSha\<close>.
\<close>

definition commit_request :: "host \<Rightarrow> string \<Rightarrow> string \<Rightarrow> request" where
  "commit_request h token baseSha =
     \<lparr>http_method = ''GET'', url = commitUrl h baseSha, headers = read_headers token,
      body = None\<rparr>"

definition get_base_commit :: "host \<Rightarrow> remote \<Rightarrow> string \<Rightarrow> string \<Rightarrow> string io" where
  "get_base_commit h r token baseSha =
     (let req = commit_request h token baseSha; commitResponse = fetch_commit r req in
      ((case commitResponse of
          Rejects e \<Rightarrow> Inl e
        | Resolves resp \<Rightarrow>
            if \<not> ok resp
            then Inl (new_Error (''Failed to get base commit: '' @ string_of_nat (status resp)))
            else (case body_json resp of
                    Inl e \<Rightarrow> Inl e
                  | Inr commitData \<Rightarrow> Inr (tree_sha commitData))),
       [Get_commit req commitResponse]))"

text \<open>
  Step 3 of \<^verbatim>\<open>commit_files\<close> (lines 145 to 165): every file is read (all reads are
  started, in the order of the list, before any is awaited); when some read rejects,
  \<^verbatim>\<open>Promise.all\<close> rejects with the wrapped error of the read whose rejection comes first.
  The contents are taken only when no read was rejected, and the index of the rejection
  only among the rejected reads.
\<close>

definition fullPath :: "host \<Rightarrow> string \<Rightarrow> string" where
  "fullPath h filePath =
     (if startsWith_slash filePath then filePath else join h (REPO_DIR h) filePath)"

definition read_failure :: "string \<Rightarrow> thrown \<Rightarrow> thrown" where
  "read_failure full error =
     new_Error (''Failed to read file '' @ [CHR 0x27] @ full @ [CHR 0x27] @ '': '' @
       (if truthy (message error) then message error else to_String error))"

definition blob_entry :: "string \<Rightarrow> string \<Rightarrow> tree_entry" where
  "blob_entry filePath c =
     \<lparr>path = filePath, mode = ''100644'', entry_type = ''blob'', entry_value = content c\<rparr>"

definition rejected_reads :: "host \<Rightarrow> string list \<Rightarrow> nat list" where
  "rejected_reads h fulls = filter (\<lambda>i. isl (readFile h (fulls ! i))) [0..<length fulls]"

definition first_rejected :: "host \<Rightarrow> string list \<Rightarrow> nat" where
  "first_rejected h fulls =
     (if rejects_first h fulls \<in> set (rejected_reads h fulls) then rejects_first h fulls
      else hd (rejected_reads h fulls))"

definition read_tree_entries :: "host \<Rightarrow> string list \<Rightarrow> tree_entry list io" where
  "read_tree_entries h processedFiles =
     (let fulls = map (fullPath h) processedFiles in
      ((if rejected_reads h fulls = []
        then Inr (map (\<lambda>filePath. blob_entry filePath (projr (readFile h (fullPath h filePath))))
                    processedFiles)
        else (let i = first_rejected h fulls
              in Inl (read_failure (fulls ! i) (projl (readFile h (fulls ! i)))))),
       map (\<lambda>full. Read_file full (readFile h full)) fulls))"

text \<open>
  Step 3 of \<^verbatim>\<open>delete_files\<close> (lines 405 to 411): one entry with a null sha for each path.
\<close>

definition delete_entry :: "string \<Rightarrow> tree_entry" where
  "delete_entry p =
     \<lparr>path = p, mode = ''100644'', entry_type = ''blob'', entry_value = sha_null\<rparr>"

text \<open>
  Step 4 (lines 167 to 190, and 413 to 436): create the tree; the result is \<^verbatim>\<open>treeData\<close>.
\<close>

definition tree_request :: "host \<Rightarrow> string \<Rightarrow> string \<Rightarrow> tree_entry list \<Rightarrow> request" where
  "tree_request h token baseTreeSha treeEntries =
     \<lparr>http_method = ''POST'', url = treeUrl h, headers = write_headers token,
      body = Some (tree_body baseTreeSha treeEntries)\<rparr>"

definition create_tree ::
  "host \<Rightarrow> remote \<Rightarrow> string \<Rightarrow> string \<Rightarrow> tree_entry list \<Rightarrow> GitHubTree io" where
  "create_tree h r token baseTreeSha treeEntries =
     (let req = tree_request h token baseTreeSha treeEntries;
          treeResponse = fetch_create_tree r req in
      ((case treeResponse of
          Rejects e \<Rightarrow> Inl e
        | Resolves resp \<Rightarrow>
            if \<not> ok resp
            then (case body_text resp of
                    Inl e \<Rightarrow> Inl e
                  | Inr errorText \<Rightarrow>
                      Inl (new_Error (''Failed to create tree: '' @ string_of_nat (status resp) @
                             '' - '' @ errorText)))
            else body_json resp),
       [Post_tree req treeResponse]))"

text \<open>
  Step 5 (lines 192 to 216, and 438 to 462): create the commit; the result is
  \<^verbatim>\<open>newCommitData\<close>.
\<close>

definition new_commit_request :: "host \<Rightarrow> string \<Rightarrow> string \<Rightarrow> string \<Rightarrow> string \<Rightarrow> request" where
  "new_commit_request h token msg treeSha baseSha =
     \<lparr>http_method = ''POST'', url = newCommitUrl h, headers = write_headers token,
      body = Some (commit_body msg treeSha [baseSha])\<rparr>"

definition create_commit ::
  "host \<Rightarrow> remote \<Rightarrow> string \<Rightarrow> string \<Rightarrow> string \<Rightarrow> string \<Rightarrow> GitHubNewCommit io" where
  "create_commit h r token msg treeSha baseSha =
     (let req = new_commit_request h token msg treeSha baseSha;
          newCommitResponse = fetch_create_commit r req in
      ((case newCommitResponse of
          Rejects e \<Rightarrow> Inl e
        | Resolves resp \<Rightarrow>
            if \<not> ok resp
            then (case body_text resp of
                    Inl e \<Rightarrow> Inl e
                  | Inr errorText \<Rightarrow>
                      Inl (new_Error (''Failed to create commit: '' @ string_of_nat (status resp) @
                             '' - '' @ errorText)))
            else body_json resp),
       [Post_commit req newCommitResponse]))"

text \<open>
  Step 6 (lines 218 to 288, and 464 to 534): update the reference. A rejected \<^verbatim>\<open>fetch\<close>
  is caught and wrapped; a response that is not ok is turned into an error of its status
  and body. The parse of the body as JSON only feeds the log.
\<close>

definition update_ref_request :: "host \<Rightarrow> string \<Rightarrow> string \<Rightarrow> request" where
  "update_ref_request h token newSha =
     \<lparr>http_method = ''PATCH'', url = refUrl h, headers = write_headers token,
      body = Some (ref_body newSha False)\<rparr>"

definition update_reference :: "host \<Rightarrow> remote \<Rightarrow> string \<Rightarrow> string \<Rightarrow> unit io" where
  "update_reference h r token newSha =
     (let req = update_ref_request h token newSha;
          updateRefResponse = fetch_update_ref r req in
      ((case updateRefResponse of
          Rejects fetchError \<Rightarrow>
            Inl (new_Error (''Network error during reference update: '' @
                   (if truthy (message fetchError) then message fetchError
                    else ''Unknown fetch error'')))
        | Resolves resp \<Rightarrow>
            if \<not> ok resp
            then (let errorText =
                        (case body_text resp of
                           Inl textError \<Rightarrow> ''Unable to read error response''
                         | Inr t \<Rightarrow> t)
                  in Inl (new_Error (''Failed to update reference: '' @
                            string_of_nat (status resp) @ '' - '' @ errorText)))
            else Inr ()),
       [Patch_ref req updateRefResponse]))"

section \<open>The two tools\<close>

record simplifiedResult =
  result_sha :: string
  result_message :: string
  result_author :: string
  result_date :: string
  result_key :: string
  result_paths :: "string list"
  result_tree_sha :: string

definition simplified ::
  "GitHubNewCommit \<Rightarrow> string \<Rightarrow> string list \<Rightarrow> GitHubTree \<Rightarrow> simplifiedResult" where
  "simplified newCommitData key paths treeData =
     \<lparr>result_sha = commit_sha newCommitData,
      result_message = commit_message newCommitData,
      result_author = author_name newCommitData,
      result_date = author_date newCommitData,
      result_key = key,
      result_paths = paths,
      result_tree_sha = sha treeData\<rparr>"

text \<open>
  The outer catch block (lines 311 to 327, and 557 to 573): whatever was thrown is rethrown
  as a new \<^verbatim>\<open>Error\<close>.
\<close>

definition rethrow :: "string \<Rightarrow> thrown \<Rightarrow> thrown" where
  "rethrow failed_to error =
     (let errorMessage = (if instanceof_Error error then message error else to_String error) in
      if \<not> truthy errorMessage \<or> errorMessage = ''undefined'' \<or>
         errorMessage = ''[object Object]''
      then new_Error
             (if instanceof_Error error \<and> truthy (stack error)
              then failed_to @ takeWhile (\<lambda>c. c \<noteq> CHR 0x0A) (stack error)
              else failed_to @ ''Unknown error occurred'')
      else new_Error errorMessage)"

definition catch :: "string \<Rightarrow> 'a io \<Rightarrow> 'a io" where
  "catch failed_to m =
     (case m of (Inl error, tr) \<Rightarrow> (Inl (rethrow failed_to error), tr) | (Inr a, tr) \<Rightarrow> (Inr a, tr))"

text \<open>
  The first statement of both try blocks (lines 97 to 100, and 348 to 351): the token must
  be set and not empty.
\<close>

definition githubToken :: "host \<Rightarrow> string io" where
  "githubToken h =
     (case GITHUB_TOKEN h of
        None \<Rightarrow> (Inl (new_Error ''GITHUB_TOKEN environment variable is required''), [])
      | Some t \<Rightarrow>
          if truthy t then (Inr t, [])
          else (Inl (new_Error ''GITHUB_TOKEN environment variable is required''), []))"

definition processedFiles :: "string list \<Rightarrow> string list" where
  "processedFiles files =
     map (\<lambda>filePath. if startsWith_slash filePath then slice filePath 1 else filePath) files"

text \<open>
  Steps 4 to 6 and the result (lines 290 to 310, and 536 to 556), which the two tools share
  word for word but for the key under which the paths are listed.
\<close>

definition write_commit ::
  "host \<Rightarrow> remote \<Rightarrow> string \<Rightarrow> string \<Rightarrow> string \<Rightarrow> string \<Rightarrow> tree_entry list \<Rightarrow>
   string \<Rightarrow> string list \<Rightarrow> simplifiedResult io" where
  "write_commit h r token msg baseSha baseTreeSha treeEntries key paths =
     io_bind (create_tree h r token baseTreeSha treeEntries) (\<lambda>treeData.
     io_bind (create_commit h r token msg (sha treeData) baseSha) (\<lambda>newCommitData.
     io_bind (update_reference h r token (commit_sha newCommitData)) (\<lambda>_.
       (Inr (simplified newCommitData key paths treeData), []))))"

definition commit_files :: "host \<Rightarrow> remote \<Rightarrow> string list \<Rightarrow> string \<Rightarrow> simplifiedResult io" where
  "commit_files h r files msg =
     catch ''Failed to commit files: ''
       (io_bind (githubToken h) (\<lambda>token.
        let processed = processedFiles files in
        io_bind (get_branch_reference h r token) (\<lambda>baseSha.
        io_bind (get_base_commit h r token baseSha) (\<lambda>baseTreeSha.
        io_bind (read_tree_entries h processed) (\<lambda>treeEntries.
          write_commit h r token msg baseSha baseTreeSha treeEntries ''files'' processed)))))"

text \<open>
  \<^verbatim>\<open>delete_files\<close> maps the paths before any request (lines 353 to 367): the first path
  with a leading slash that does not start with the working directory throws.
\<close>

definition outside_error :: "string \<Rightarrow> thrown" where
  "outside_error filePath =
     new_Error (''Path '' @ [CHR 0x27] @ filePath @ [CHR 0x27] @
       '' must be relative to repository root or within current working directory'')"

definition processedPath :: "string \<Rightarrow> string \<Rightarrow> thrown + string" where
  "processedPath cwd' filePath =
     (if startsWith_slash filePath
      then (if startsWith filePath cwd' then Inr (slice filePath (length cwd' + 1))
            else Inl (outside_error filePath))
      else Inr filePath)"

fun processedPaths :: "string \<Rightarrow> string list \<Rightarrow> thrown + string list" where
  "processedPaths cwd' [] = Inr []"
| "processedPaths cwd' (filePath # rest) =
     (case processedPath cwd' filePath of
        Inl e \<Rightarrow> Inl e
      | Inr p \<Rightarrow> (case processedPaths cwd' rest of Inl e \<Rightarrow> Inl e | Inr ps \<Rightarrow> Inr (p # ps)))"

definition delete_files :: "host \<Rightarrow> remote \<Rightarrow> string list \<Rightarrow> string \<Rightarrow> simplifiedResult io" where
  "delete_files h r paths msg =
     catch ''Failed to delete files: ''
       (io_bind (githubToken h) (\<lambda>token.
        io_bind (processedPaths (cwd h) paths, []) (\<lambda>processed.
        io_bind (get_branch_reference h r token) (\<lambda>baseSha.
        io_bind (get_base_commit h r token baseSha) (\<lambda>baseTreeSha.
          write_commit h r token msg baseSha baseTreeSha (map delete_entry processed)
            ''deletedFiles'' processed)))))"

section \<open>A concrete host and concrete remotes\<close>

text \<open>
  The theorems below hold for every host and every remote. The examples run the tools on
  a fixed host and on fixed remotes. There \<^verbatim>\<open>path.join\<close> is POSIX \<^verbatim>\<open>path.join\<close> of
  Node for two arguments: the non-empty arguments are put together with a slash and the
  result is normalised (empty and \<^verbatim>\<open>.\<close> segments dropped, \<^verbatim>\<open>..\<close> resolved against the
  segment before it).
\<close>

fun split_slash :: "string \<Rightarrow> string list" where
  "split_slash [] = [[]]"
| "split_slash (c # cs) =
     (if c = CHR ''/'' then [] # split_slash cs
      else (case split_slash cs of [] \<Rightarrow> [[c]] | s # ss \<Rightarrow> (c # s) # ss))"

definition push_segment :: "bool \<Rightarrow> string list \<Rightarrow> string \<Rightarrow> string list" where
  "push_segment allowAboveRoot res seg =
     (if seg = [] \<or> seg = ''.'' then res
      else if seg = ''..''
      then (case res of
              [] \<Rightarrow> if allowAboveRoot then [seg] else []
            | lastSegment # below \<Rightarrow>
                if lastSegment = ''..'' then (if allowAboveRoot then seg # res else res) else below)
      else seg # res)"

fun join_slash :: "string list \<Rightarrow> string" where
  "join_slash [] = []"
| "join_slash [s] = s"
| "join_slash (s # t # ss) = s @ ''/'' @ join_slash (t # ss)"

definition normalize :: "string \<Rightarrow> string" where
  "normalize p =
     (if p = [] then ''.''
      else
        (let isAbsolute = (hd p = CHR ''/'');
             trailingSeparator = (last p = CHR ''/'');
             res = join_slash (rev (foldl (push_segment (\<not> isAbsolute)) [] (split_slash p)))
         in if res = []
            then (if isAbsolute then ''/'' else if trailingSeparator then ''./'' else ''.'')
            else (if isAbsolute then ''/'' else []) @ res @
                 (if trailingSeparator then ''/'' else [])))"

definition posix_join :: "string \<Rightarrow> string \<Rightarrow> string" where
  "posix_join a b =
     (if a = [] \<and> b = [] then ''.''
      else normalize (if a = [] then b else if b = [] then a else a @ ''/'' @ b))"

definition ENOENT :: "string \<Rightarrow> thrown" where
  "ENOENT p =
     \<lparr>instanceof_Error = True,
      message = ''ENOENT: no such file or directory, open '' @ [CHR 0x27] @ p @ [CHR 0x27],
      stack = ''Error: ENOENT: no such file or directory, open '' @ [CHR 0x27] @ p @ [CHR 0x27],
      to_String = ''Error: ENOENT: no such file or directory, open '' @ [CHR 0x27] @ p @ [CHR 0x27]\<rparr>"

definition disk0 :: "string \<Rightarrow> thrown + string" where
  "disk0 p =
     (if p = ''/repo/README.md'' then Inr ''# demo''
      else if p = ''/etc/passwd'' then Inr ''root:x:0:0''
      else Inl (ENOENT p))"

definition host0 :: host where
  "host0 =
     \<lparr>GITHUB_TOKEN = Some ''ghs_token'',
      REPO_OWNER = ''zenmush'',
      REPO_NAME = ''demo'',
      BRANCH_NAME = ''main'',
      env_REPO_DIR = Some ''/repo'',
      env_GITHUB_API_URL = None,
      cwd = ''/repo'',
      join = posix_join,
      readFile = disk0,
      rejects_first = (\<lambda>fulls. 0)\<rparr>"

definition replies :: "nat \<Rightarrow> string \<Rightarrow> 'a \<Rightarrow> 'a fetched" where
  "replies n t j = Resolves \<lparr>status = n, body_text = Inr t, body_json = Inr j\<rparr>"

text \<open>A remote whose branch is at \<^verbatim>\<open>base1\<close> (tree \<^verbatim>\<open>tree1\<close>) and that accepts every write.\<close>

definition remote_ok :: remote where
  "remote_ok =
     \<lparr>fetch_ref = (\<lambda>req. replies 200 ''ref'' (GitHubRef ''base1'')),
      fetch_commit = (\<lambda>req. replies 200 ''commit'' (GitHubCommit ''tree1'')),
      fetch_create_tree = (\<lambda>req. replies 201 ''tree'' (GitHubTree ''tree2'')),
      fetch_create_commit =
        (\<lambda>req. replies 201 ''commit''
           (GitHubNewCommit ''c2'' ''update docs'' ''claude'' ''2025-06-01T00:00:00Z'')),
      fetch_update_ref = (\<lambda>req. replies 200 ''ref'' ())\<rparr>"

text \<open>The same remote answering the reference update with an internal fault.\<close>

definition remote_500 :: remote where
  "remote_500 =
     remote_ok\<lparr>fetch_update_ref :=
       (\<lambda>req. Resolves \<lparr>status = 500, body_text = Inr ''Internal Server Error'',
                         body_json = Inl (new_Error ''Unexpected token I in JSON'')\<rparr>)\<rparr>"

text \<open>The same remote with the reference update failing at transport level.\<close>

definition remote_down :: remote where
  "remote_down =
     remote_ok\<lparr>fetch_update_ref := (\<lambda>req. Rejects (new_Error ''socket hang up''))\<rparr>"

text \<open>A remote that does not know the branch.\<close>

definition remote_404 :: remote where
  "remote_404 =
     remote_ok\<lparr>fetch_ref :=
       (\<lambda>req. Resolves \<lparr>status = 404, body_text = Inr ''Not Found'',
                         body_json = Inl (new_Error ''Unexpected token N in JSON'')\<rparr>)\<rparr>"

text \<open>
  A remote whose reference read fails with a thrown value that is not an \<^verbatim>\<open>Error\<close> and
  has no message of its own.
\<close>

definition plain_object :: thrown where
  "plain_object =
     \<lparr>instanceof_Error = False, message = [], stack = [], to_String = ''[object Object]''\<rparr>"

definition remote_opaque :: remote where
  "remote_opaque = remote_ok\<lparr>fetch_ref := (\<lambda>req. Rejects plain_object)\<rparr>"

text \<open>The exchanges of a run on \<open>host0\<close> against these remotes.\<close>

definition new_commit_c2 :: GitHubNewCommit where
  "new_commit_c2 = GitHubNewCommit ''c2'' ''update docs'' ''claude'' ''2025-06-01T00:00:00Z''"

definition get_ref_base1 :: exchange where
  "get_ref_base1 =
     Get_ref (ref_request host0 ''ghs_token'') (replies 200 ''ref'' (GitHubRef ''base1''))"

definition get_commit_base1 :: exchange where
  "get_commit_base1 =
     Get_commit (commit_request host0 ''ghs_token'' ''base1'')
       (replies 200 ''commit'' (GitHubCommit ''tree1''))"

definition post_tree_tree2 :: "tree_entry list \<Rightarrow> exchange" where
  "post_tree_tree2 treeEntries =
     Post_tree (tree_request host0 ''ghs_token'' ''tree1'' treeEntries)
       (replies 201 ''tree'' (GitHubTree ''tree2''))"

definition post_commit_c2 :: "string \<Rightarrow> exchange" where
  "post_commit_c2 msg =
     Post_commit (new_commit_request host0 ''ghs_token'' msg ''tree2'' ''base1'')
       (replies 201 ''commit'' new_commit_c2)"

definition patch_ref_c2 :: "unit fetched \<Rightarrow> exchange" where
  "patch_ref_c2 rep = Patch_ref (update_ref_request host0 ''ghs_token'' ''c2'') rep"

definition internal_fault :: "unit fetched" where
  "internal_fault =
     Resolves \<lparr>status = 500, body_text = Inr ''Internal Server Error'',
               body_json = Inl (new_Error ''Unexpected token I in JSON'')\<rparr>"

section \<open>Properties of errors and of effect sequences\<close>

text \<open>\<^verbatim>\<open>s.includes(p)\<close>: \<open>p\<close> occurs in \<open>s\<close>.\<close>

fun includes_text :: "string \<Rightarrow> string \<Rightarrow> bool" where
  "includes_text [] p = (p = [])"
| "includes_text (c # cs) p = (startsWith (c # cs) p \<or> includes_text cs p)"

text \<open>An error carries a text when one of its string properties includes it.\<close>

definition carries :: "thrown \<Rightarrow> string \<Rightarrow> bool" where
  "carries e s =
     (includes_text (message e) s \<or> includes_text (stack e) s \<or> includes_text (to_String e) s)"

text \<open>The remote writes are the two object creations and the reference update.\<close>

fun is_write :: "exchange \<Rightarrow> bool" where
  "is_write (Post_tree req rep) = True"
| "is_write (Post_commit req rep) = True"
| "is_write (Patch_ref req rep) = True"
| "is_write x = False"

text \<open>A request is acknowledged when \<^verbatim>\<open>fetch\<close> resolves with an ok response.\<close>

fun acknowledged :: "'a fetched \<Rightarrow> bool" where
  "acknowledged (Rejects e) = False"
| "acknowledged (Resolves resp) = ok resp"

text \<open>What is issued after the first reference update of a sequence.\<close>

fun after_patch :: "exchange list \<Rightarrow> exchange list" where
  "after_patch [] = []"
| "after_patch (Patch_ref req rep # xs) = xs"
| "after_patch (x # xs) = after_patch xs"

section \<open>The steps one by one\<close>

lemma io_bind_Inr_iff:
  "io_bind m f = (Inr b, tr) \<longleftrightarrow>
     (\<exists>a tr1 tr2. m = (Inr a, tr1) \<and> f a = (Inr b, tr2) \<and> tr = tr1 @ tr2)"
  by (cases m; cases "fst m") (auto simp: io_bind_def split: prod.splits)

lemma snd_io_bind:
  "snd (io_bind m f) = (case fst m of Inl e \<Rightarrow> snd m | Inr a \<Rightarrow> snd m @ snd (f a))"
  by (cases m; cases "fst m") (auto simp: io_bind_def split: prod.splits)

lemma catch_Inr_iff: "catch p m = (Inr a, tr) \<longleftrightarrow> m = (Inr a, tr)"
  by (cases m; cases "fst m") (auto simp: catch_def)

lemma catch_Inl_iff:
  "catch p m = (Inl e, tr) \<longleftrightarrow> (\<exists>c. m = (Inl c, tr) \<and> e = rethrow p c)"
  by (cases m; cases "fst m") (auto simp: catch_def)

lemma snd_catch: "snd (catch p m) = snd m"
  by (cases m; cases "fst m") (auto simp: catch_def)

lemma message_new_Error: "message (new_Error m) = m"
  by (simp add: new_Error_def)

lemma instanceof_new_Error: "instanceof_Error (new_Error m)"
  by (simp add: new_Error_def)

lemma rethrow_is_Error: "instanceof_Error (rethrow p c)"
  by (simp add: rethrow_def Let_def instanceof_new_Error)

lemma rethrow_message_nonempty: "p \<noteq> [] \<Longrightarrow> message (rethrow p c) \<noteq> []"
  by (simp add: rethrow_def Let_def message_new_Error truthy_def)

lemma get_branch_reference_trace:
  "snd (get_branch_reference h r t) = [Get_ref (ref_request h t) (fetch_ref r (ref_request h t))]"
  by (simp add: get_branch_reference_def Let_def)

lemma get_branch_reference_Inr:
  "fst (get_branch_reference h r t) = Inr b \<longleftrightarrow>
     (\<exists>resp refData. fetch_ref r (ref_request h t) = Resolves resp \<and> ok resp \<and>
        body_json resp = Inr refData \<and> b = object_sha refData)"
  by (auto simp: get_branch_reference_def Let_def split: fetched.splits sum.splits)

lemma get_base_commit_trace:
  "snd (get_base_commit h r t b) =
     [Get_commit (commit_request h t b) (fetch_commit r (commit_request h t b))]"
  by (simp add: get_base_commit_def Let_def)

lemma get_base_commit_Inr:
  "fst (get_base_commit h r t b) = Inr bt \<longleftrightarrow>
     (\<exists>resp commitData. fetch_commit r (commit_request h t b) = Resolves resp \<and> ok resp \<and>
        body_json resp = Inr commitData \<and> bt = tree_sha commitData)"
  by (auto simp: get_base_commit_def Let_def split: fetched.splits sum.splits)

lemma read_tree_entries_trace:
  "snd (read_tree_entries h ps) = map (\<lambda>p. Read_file (fullPath h p) (readFile h (fullPath h p))) ps"
  by (simp add: read_tree_entries_def Let_def comp_def)

lemma rejected_reads_empty:
  "rejected_reads h fulls = [] \<longleftrightarrow> (\<forall>f\<in>set fulls. \<not> isl (readFile h f))"
proof -
  have "rejected_reads h fulls = [] \<longleftrightarrow> (\<forall>i<length fulls. \<not> isl (readFile h (fulls ! i)))"
    by (auto simp: rejected_reads_def filter_empty_conv)
  then show ?thesis by (simp add: all_set_conv_all_nth)
qed

lemma first_rejected_rejected:
  assumes "rejected_reads h fulls \<noteq> []"
  shows "first_rejected h fulls < length fulls \<and> isl (readFile h (fulls ! first_rejected h fulls))"
proof -
  have "first_rejected h fulls \<in> set (rejected_reads h fulls)"
    using assms by (simp add: first_rejected_def)
  then show ?thesis by (auto simp: rejected_reads_def)
qed

lemma read_tree_entries_Inr:
  "fst (read_tree_entries h ps) = Inr es \<longleftrightarrow>
     (\<exists>cs. list_all2 (\<lambda>p c. readFile h (fullPath h p) = Inr c) ps cs \<and>
           es = map2 blob_entry ps cs)"
proof
  assume a: "fst (read_tree_entries h ps) = Inr es"
  then have ok: "\<forall>p\<in>set ps. \<not> isl (readFile h (fullPath h p))"
    and es: "es = map (\<lambda>p. blob_entry p (projr (readFile h (fullPath h p)))) ps"
    by (auto simp: read_tree_entries_def Let_def rejected_reads_empty split: if_splits)
  let ?cs = "map (\<lambda>p. projr (readFile h (fullPath h p))) ps"
  have "list_all2 (\<lambda>p c. readFile h (fullPath h p) = Inr c) ps ?cs"
    using ok by (induction ps) (auto simp: isl_def)
  moreover have "es = map2 blob_entry ps ?cs"
    unfolding es by (induction ps) auto
  ultimately show "\<exists>cs. list_all2 (\<lambda>p c. readFile h (fullPath h p) = Inr c) ps cs \<and>
           es = map2 blob_entry ps cs" by blast
next
  assume "\<exists>cs. list_all2 (\<lambda>p c. readFile h (fullPath h p) = Inr c) ps cs \<and>
           es = map2 blob_entry ps cs"
  then obtain cs where cs: "list_all2 (\<lambda>p c. readFile h (fullPath h p) = Inr c) ps cs"
    and es: "es = map2 blob_entry ps cs" by blast
  from cs have ok: "\<forall>p\<in>set ps. \<not> isl (readFile h (fullPath h p))"
    by (induction rule: list_all2_induct) auto
  from cs have "map2 blob_entry ps cs = map (\<lambda>p. blob_entry p (projr (readFile h (fullPath h p)))) ps"
    by (induction rule: list_all2_induct) auto
  with ok es show "fst (read_tree_entries h ps) = Inr es"
    by (simp add: read_tree_entries_def Let_def rejected_reads_empty)
qed

lemma read_tree_entries_Inl:
  assumes "fst (read_tree_entries h ps) = Inl e"
  shows "\<exists>p\<in>set ps. \<exists>cause. readFile h (fullPath h p) = Inl cause \<and>
           e = read_failure (fullPath h p) cause"
proof -
  let ?fulls = "map (fullPath h) ps"
  from assms have ne: "rejected_reads h ?fulls \<noteq> []"
    and e: "e = read_failure (?fulls ! first_rejected h ?fulls)
                  (projl (readFile h (?fulls ! first_rejected h ?fulls)))"
    by (auto simp: read_tree_entries_def Let_def split: if_splits)
  from first_rejected_rejected[OF ne]
  have i: "first_rejected h ?fulls < length ps"
    and l: "isl (readFile h (?fulls ! first_rejected h ?fulls))" by auto
  let ?p = "ps ! first_rejected h ?fulls"
  have "?p \<in> set ps" using i by simp
  moreover have "?fulls ! first_rejected h ?fulls = fullPath h ?p" using i by simp
  ultimately have "?p \<in> set ps" and "isl (readFile h (fullPath h ?p))"
    and "e = read_failure (fullPath h ?p) (projl (readFile h (fullPath h ?p)))"
    using e l by simp_all
  then show ?thesis by (cases "readFile h (fullPath h ?p)") force+
qed

lemma read_tree_entries_fails_iff:
  "isl (fst (read_tree_entries h ps)) \<longleftrightarrow> (\<exists>p\<in>set ps. isl (readFile h (fullPath h p)))"
  by (auto simp: read_tree_entries_def Let_def rejected_reads_empty)

lemma create_tree_trace:
  "snd (create_tree h r t bt es) =
     [Post_tree (tree_request h t bt es) (fetch_create_tree r (tree_request h t bt es))]"
  by (simp add: create_tree_def Let_def)

lemma create_tree_Inr:
  "fst (create_tree h r t bt es) = Inr treeData \<longleftrightarrow>
     (\<exists>resp. fetch_create_tree r (tree_request h t bt es) = Resolves resp \<and> ok resp \<and>
        body_json resp = Inr treeData)"
  by (auto simp: create_tree_def Let_def split: fetched.splits sum.splits)

lemma create_commit_trace:
  "snd (create_commit h r t msg ts b) =
     [Post_commit (new_commit_request h t msg ts b)
        (fetch_create_commit r (new_commit_request h t msg ts b))]"
  by (simp add: create_commit_def Let_def)

lemma create_commit_Inr:
  "fst (create_commit h r t msg ts b) = Inr newCommitData \<longleftrightarrow>
     (\<exists>resp. fetch_create_commit r (new_commit_request h t msg ts b) = Resolves resp \<and> ok resp \<and>
        body_json resp = Inr newCommitData)"
  by (auto simp: create_commit_def Let_def split: fetched.splits sum.splits)

lemma update_reference_trace:
  "snd (update_reference h r t s) =
     [Patch_ref (update_ref_request h t s) (fetch_update_ref r (update_ref_request h t s))]"
  by (simp add: update_reference_def Let_def)

lemma update_reference_Inr:
  "fst (update_reference h r t s) = Inr u \<longleftrightarrow>
     (\<exists>resp. fetch_update_ref r (update_ref_request h t s) = Resolves resp \<and> ok resp)"
  by (auto simp: update_reference_def Let_def split: fetched.splits sum.splits)

lemma githubToken_trace: "snd (githubToken h) = []"
  by (simp add: githubToken_def split: option.splits)

lemma githubToken_Inr: "fst (githubToken h) = Inr t \<longleftrightarrow> GITHUB_TOKEN h = Some t \<and> t \<noteq> []"
  by (auto simp: githubToken_def truthy_def split: option.splits)

lemma fst_io_bind:
  "fst (io_bind m f) = (case fst m of Inl e \<Rightarrow> Inl e | Inr a \<Rightarrow> fst (f a))"
  by (cases m; cases "fst m") (auto simp: io_bind_def split: prod.splits)

lemma fst_catch:
  "fst (catch p m) = (case fst m of Inl c \<Rightarrow> Inl (rethrow p c) | Inr a \<Rightarrow> Inr a)"
  by (cases m; cases "fst m") (auto simp: catch_def)

lemma rethrow_new_Error:
  "m \<noteq> [] \<Longrightarrow> m \<noteq> ''undefined'' \<Longrightarrow> m \<noteq> ''[object Object]'' \<Longrightarrow>
   rethrow p (new_Error m) = new_Error m"
  by (simp add: rethrow_def Let_def new_Error_def truthy_def)

lemma rethrow_new_Error_hd:
  "m \<noteq> [] \<Longrightarrow> hd m \<noteq> CHR ''u'' \<Longrightarrow> hd m \<noteq> CHR ''['' \<Longrightarrow>
   rethrow p (new_Error m) = new_Error m"
  by (rule rethrow_new_Error) auto

lemma rethrow_token_error:
  "rethrow p (new_Error ''GITHUB_TOKEN environment variable is required'') =
   new_Error ''GITHUB_TOKEN environment variable is required''"
  by (rule rethrow_new_Error) simp_all

lemma rethrow_outside_error: "rethrow p (outside_error f) = outside_error f"
  unfolding outside_error_def by (rule rethrow_new_Error) simp_all

lemma rethrow_read_failure: "rethrow p (read_failure full cause) = read_failure full cause"
  unfolding read_failure_def by (rule rethrow_new_Error_hd) simp_all

lemma fst_update_reference:
  "fst (update_reference h r t s) =
     (case fetch_update_ref r (update_ref_request h t s) of
        Rejects fetchError \<Rightarrow>
          Inl (new_Error (''Network error during reference update: '' @
                 (if message fetchError = [] then ''Unknown fetch error'' else message fetchError)))
      | Resolves resp \<Rightarrow>
          if ok resp then Inr ()
          else Inl (new_Error (''Failed to update reference: '' @ string_of_nat (status resp) @
                      '' - '' @
                      (case body_text resp of
                         Inl textError \<Rightarrow> ''Unable to read error response''
                       | Inr errorText \<Rightarrow> errorText))))"
  by (simp add: update_reference_def Let_def truthy_def split: fetched.splits sum.splits)

lemma read_tree_entries_Inr_trace:
  assumes "read_tree_entries h ps = (Inr es, tr)"
  shows "\<exists>cs. list_all2 (\<lambda>p c. readFile h (fullPath h p) = Inr c) ps cs \<and>
           es = map2 blob_entry ps cs \<and>
           tr = map2 (\<lambda>p c. Read_file (fullPath h p) (Inr c)) ps cs"
proof -
  from assms have "fst (read_tree_entries h ps) = Inr es" by simp
  then obtain cs where cs: "list_all2 (\<lambda>p c. readFile h (fullPath h p) = Inr c) ps cs"
    and es: "es = map2 blob_entry ps cs"
    unfolding read_tree_entries_Inr by blast
  from cs have "map (\<lambda>p. Read_file (fullPath h p) (readFile h (fullPath h p))) ps =
                map2 (\<lambda>p c. Read_file (fullPath h p) (Inr c)) ps cs"
    by (induction rule: list_all2_induct) auto
  moreover have "tr = snd (read_tree_entries h ps)" using assms by simp
  ultimately show ?thesis using cs es by (auto simp: read_tree_entries_trace)
qed

lemma write_commit_Inr:
  assumes "write_commit h r t msg b bt es key ps = (Inr result, tr)"
  shows "\<exists>treeResp treeData newResp newCommitData updResp.
           body_json treeResp = Inr treeData \<and> ok treeResp \<and>
           body_json newResp = Inr newCommitData \<and> ok newResp \<and> ok updResp \<and>
           tr = [Post_tree (tree_request h t bt es) (Resolves treeResp),
                 Post_commit (new_commit_request h t msg (sha treeData) b) (Resolves newResp),
                 Patch_ref (update_ref_request h t (commit_sha newCommitData)) (Resolves updResp)] \<and>
           result = simplified newCommitData key ps treeData"
proof -
  from assms obtain treeData tr4 newCommitData tr5 u tr6 where
    s4: "create_tree h r t bt es = (Inr treeData, tr4)" and
    s5: "create_commit h r t msg (sha treeData) b = (Inr newCommitData, tr5)" and
    s6: "update_reference h r t (commit_sha newCommitData) = (Inr u, tr6)" and
    tr: "tr = tr4 @ tr5 @ tr6" and
    res: "result = simplified newCommitData key ps treeData"
    unfolding write_commit_def io_bind_Inr_iff by auto
  from s4 obtain treeResp where
    r4: "fetch_create_tree r (tree_request h t bt es) = Resolves treeResp" "ok treeResp"
        "body_json treeResp = Inr treeData"
    using create_tree_Inr [of h r t bt es treeData] by auto
  from s5 obtain newResp where
    r5: "fetch_create_commit r (new_commit_request h t msg (sha treeData) b) = Resolves newResp"
        "ok newResp" "body_json newResp = Inr newCommitData"
    using create_commit_Inr [of h r t msg "sha treeData" b newCommitData] by auto
  from s6 obtain updResp where
    r6: "fetch_update_ref r (update_ref_request h t (commit_sha newCommitData)) = Resolves updResp"
        "ok updResp"
    using update_reference_Inr [of h r t "commit_sha newCommitData" u] by auto
  have "tr4 = [Post_tree (tree_request h t bt es) (Resolves treeResp)]"
    using s4 create_tree_trace [of h r t bt es] r4 by simp
  moreover have "tr5 = [Post_commit (new_commit_request h t msg (sha treeData) b) (Resolves newResp)]"
    using s5 create_commit_trace [of h r t msg "sha treeData" b] r5 by simp
  moreover have "tr6 = [Patch_ref (update_ref_request h t (commit_sha newCommitData)) (Resolves updResp)]"
    using s6 update_reference_trace [of h r t "commit_sha newCommitData"] r6 by simp
  ultimately show ?thesis using tr res r4 r5 r6 by auto
qed

lemma processedPaths_relative:
  "\<forall>p\<in>set paths. \<not> startsWith_slash p \<Longrightarrow> processedPaths c paths = Inr paths"
  by (induction paths) (auto simp: processedPath_def)

lemma processedPaths_Inl:
  "processedPaths c paths = Inl e \<longleftrightarrow>
     (\<exists>p\<in>set paths. startsWith_slash p \<and> \<not> startsWith p c) \<and>
     e = outside_error (hd (filter (\<lambda>p. startsWith_slash p \<and> \<not> startsWith p c) paths))"
  by (induction paths) (auto simp: processedPath_def split: if_splits sum.splits)

lemma processedFiles_eq:
  "processedFiles files = map (\<lambda>f. if startsWith_slash f then drop 1 f else f) files"
  by (simp add: processedFiles_def slice_def)

lemma delete_files_outside:
  assumes "\<exists>p\<in>set paths. startsWith_slash p \<and> \<not> startsWith p (cwd h)"
  shows "delete_files h r paths msg =
           (Inl (case fst (githubToken h) of
                   Inl e \<Rightarrow> new_Error ''GITHUB_TOKEN environment variable is required''
                 | Inr token \<Rightarrow>
                     outside_error
                       (hd (filter (\<lambda>p. startsWith_slash p \<and> \<not> startsWith p (cwd h)) paths))),
            [])"
proof -
  let ?bad = "hd (filter (\<lambda>p. startsWith_slash p \<and> \<not> startsWith p (cwd h)) paths)"
  have pp: "processedPaths (cwd h) paths = Inl (outside_error ?bad)"
    using assms by (simp add: processedPaths_Inl)
  show ?thesis
    by (cases "GITHUB_TOKEN h")
       (auto simp: delete_files_def githubToken_def io_bind_def catch_def pp
          rethrow_token_error rethrow_outside_error)
qed

lemma includes_text_Nil: "includes_text s []"
  by (induction s) (simp_all add: startsWith_def)

lemma includes_text_prefix: "includes_text (s @ b) s"
  by (cases s) (simp_all add: includes_text_Nil startsWith_def)

lemma includes_text_append: "includes_text (a @ s @ b) s"
  by (induction a) (simp_all add: includes_text_prefix)

lemma read_failure_carries: "carries (read_failure full cause) full"
proof -
  have "includes_text (''Failed to read file '' @ [CHR 0x27] @ full @ ([CHR 0x27] @ '': '' @ m)) full" for m
    using includes_text_append [of "''Failed to read file '' @ [CHR 0x27]" full] by simp
  then show ?thesis
    by (simp add: carries_def read_failure_def new_Error_def)
qed

section \<open>Result and effects in closed form\<close>

lemmas io_simps =
  fst_io_bind snd_io_bind fst_catch snd_catch githubToken_trace get_branch_reference_trace
  get_base_commit_trace read_tree_entries_trace create_tree_trace create_commit_trace
  update_reference_trace

lemma snd_write_commit:
  "snd (write_commit h r t msg b bt es key ps) =
     Post_tree (tree_request h t bt es) (fetch_create_tree r (tree_request h t bt es)) #
     (case fst (create_tree h r t bt es) of
        Inl e \<Rightarrow> []
      | Inr treeData \<Rightarrow>
          Post_commit (new_commit_request h t msg (sha treeData) b)
            (fetch_create_commit r (new_commit_request h t msg (sha treeData) b)) #
          (case fst (create_commit h r t msg (sha treeData) b) of
             Inl e \<Rightarrow> []
           | Inr newCommitData \<Rightarrow>
               [Patch_ref (update_ref_request h t (commit_sha newCommitData))
                  (fetch_update_ref r (update_ref_request h t (commit_sha newCommitData)))]))"
  by (simp add: write_commit_def io_simps split: sum.splits)

lemma fst_write_commit:
  "fst (write_commit h r t msg b bt es key ps) =
     (case fst (create_tree h r t bt es) of
        Inl e \<Rightarrow> Inl e
      | Inr treeData \<Rightarrow>
          (case fst (create_commit h r t msg (sha treeData) b) of
             Inl e \<Rightarrow> Inl e
           | Inr newCommitData \<Rightarrow>
               (case fst (update_reference h r t (commit_sha newCommitData)) of
                  Inl e \<Rightarrow> Inl e
                | Inr u \<Rightarrow> Inr (simplified newCommitData key ps treeData))))"
  by (simp add: write_commit_def io_simps split: sum.splits)

lemma snd_commit_files:
  "snd (commit_files h r files msg) =
     (case fst (githubToken h) of
        Inl e \<Rightarrow> []
      | Inr token \<Rightarrow>
          Get_ref (ref_request h token) (fetch_ref r (ref_request h token)) #
          (case fst (get_branch_reference h r token) of
             Inl e \<Rightarrow> []
           | Inr baseSha \<Rightarrow>
               Get_commit (commit_request h token baseSha)
                 (fetch_commit r (commit_request h token baseSha)) #
               (case fst (get_base_commit h r token baseSha) of
                  Inl e \<Rightarrow> []
                | Inr baseTreeSha \<Rightarrow>
                    map (\<lambda>p. Read_file (fullPath h p) (readFile h (fullPath h p)))
                      (processedFiles files) @
                    (case fst (read_tree_entries h (processedFiles files)) of
                       Inl e \<Rightarrow> []
                     | Inr treeEntries \<Rightarrow>
                         snd (write_commit h r token msg baseSha baseTreeSha treeEntries
                                ''files'' (processedFiles files))))))"
  by (simp add: commit_files_def Let_def io_simps split: sum.splits)

lemma fst_commit_files:
  "fst (commit_files h r files msg) =
     (case (case fst (githubToken h) of
        Inl e \<Rightarrow> Inl e
      | Inr token \<Rightarrow>
          (case fst (get_branch_reference h r token) of
             Inl e \<Rightarrow> Inl e
           | Inr baseSha \<Rightarrow>
               (case fst (get_base_commit h r token baseSha) of
                  Inl e \<Rightarrow> Inl e
                | Inr baseTreeSha \<Rightarrow>
                    (case fst (read_tree_entries h (processedFiles files)) of
                       Inl e \<Rightarrow> Inl e
                     | Inr treeEntries \<Rightarrow>
                         fst (write_commit h r token msg baseSha baseTreeSha treeEntries
                                ''files'' (processedFiles files)))))) of
        Inl c \<Rightarrow> Inl (rethrow ''Failed to commit files: '' c)
      | Inr a \<Rightarrow> Inr a)"
  by (simp add: commit_files_def Let_def io_simps split: sum.splits)

lemma snd_delete_files:
  "snd (delete_files h r paths msg) =
     (case fst (githubToken h) of
        Inl e \<Rightarrow> []
      | Inr token \<Rightarrow>
          (case processedPaths (cwd h) paths of
             Inl e \<Rightarrow> []
           | Inr processed \<Rightarrow>
               Get_ref (ref_request h token) (fetch_ref r (ref_request h token)) #
               (case fst (get_branch_reference h r token) of
                  Inl e \<Rightarrow> []
                | Inr baseSha \<Rightarrow>
                    Get_commit (commit_request h token baseSha)
                      (fetch_commit r (commit_request h token baseSha)) #
                    (case fst (get_base_commit h r token baseSha) of
                       Inl e \<Rightarrow> []
                     | Inr baseTreeSha \<Rightarrow>
                         snd (write_commit h r token msg baseSha baseTreeSha
                                (map delete_entry processed) ''deletedFiles'' processed)))))"
  by (simp add: delete_files_def Let_def io_simps split: sum.splits)

lemma fst_delete_files:
  "fst (delete_files h r paths msg) =
     (case (case fst (githubToken h) of
        Inl e \<Rightarrow> Inl e
      | Inr token \<Rightarrow>
          (case processedPaths (cwd h) paths of
             Inl e \<Rightarrow> Inl e
           | Inr processed \<Rightarrow>
               (case fst (get_branch_reference h r token) of
                  Inl e \<Rightarrow> Inl e
                | Inr baseSha \<Rightarrow>
                    (case fst (get_base_commit h r token baseSha) of
                       Inl e \<Rightarrow> Inl e
                     | Inr baseTreeSha \<Rightarrow>
                         fst (write_commit h r token msg baseSha baseTreeSha
                                (map delete_entry processed) ''deletedFiles'' processed))))) of
        Inl c \<Rightarrow> Inl (rethrow ''Failed to delete files: '' c)
      | Inr a \<Rightarrow> Inr a)"
  by (simp add: delete_files_def Let_def io_simps split: sum.splits)

text \<open>Where a reference update is issued, it is the last effect.\<close>

lemma no_patch_after_patch:
  "\<forall>x\<in>set pre. \<forall>req rep. x \<noteq> Patch_ref req rep \<Longrightarrow> after_patch (pre @ w) = after_patch w"
proof (induction pre)
  case Nil
  then show ?case by simp
next
  case (Cons x pre)
  then show ?case by (cases x) simp_all
qed

lemma write_commit_decompose:
  "(isl (fst (write_commit h r t msg b bt es key ps)) \<and>
    (\<forall>x\<in>set (snd (write_commit h r t msg b bt es key ps)). \<forall>req rep. x \<noteq> Patch_ref req rep)) \<or>
   (\<exists>treeData newCommitData pre.
      (\<forall>x\<in>set pre. \<forall>req rep. x \<noteq> Patch_ref req rep) \<and>
      fst (create_commit h r t msg (sha treeData) b) = Inr newCommitData \<and>
      snd (write_commit h r t msg b bt es key ps) =
        pre @ [Patch_ref (update_ref_request h t (commit_sha newCommitData))
                 (fetch_update_ref r (update_ref_request h t (commit_sha newCommitData)))] \<and>
      fst (write_commit h r t msg b bt es key ps) =
        (case fst (update_reference h r t (commit_sha newCommitData)) of
           Inl e \<Rightarrow> Inl e
         | Inr u \<Rightarrow> Inr (simplified newCommitData key ps treeData)))"
proof (cases "fst (create_tree h r t bt es)")
  case (Inl e)
  then show ?thesis by (simp add: fst_write_commit snd_write_commit)
next
  case treeData: (Inr treeData)
  show ?thesis
  proof (cases "fst (create_commit h r t msg (sha treeData) b)")
    case (Inl e)
    then show ?thesis using treeData by (simp add: fst_write_commit snd_write_commit)
  next
    case (Inr newCommitData)
    let ?pre = "[Post_tree (tree_request h t bt es) (fetch_create_tree r (tree_request h t bt es)),
                 Post_commit (new_commit_request h t msg (sha treeData) b)
                   (fetch_create_commit r (new_commit_request h t msg (sha treeData) b))]"
    have "\<forall>x\<in>set ?pre. \<forall>req rep. x \<noteq> Patch_ref req rep" by simp
    moreover have "snd (write_commit h r t msg b bt es key ps) =
        ?pre @ [Patch_ref (update_ref_request h t (commit_sha newCommitData))
                 (fetch_update_ref r (update_ref_request h t (commit_sha newCommitData)))]"
      using treeData Inr by (simp add: snd_write_commit)
    moreover have "fst (write_commit h r t msg b bt es key ps) =
        (case fst (update_reference h r t (commit_sha newCommitData)) of
           Inl e \<Rightarrow> Inl e
         | Inr u \<Rightarrow> Inr (simplified newCommitData key ps treeData))"
      using treeData Inr by (simp add: fst_write_commit)
    ultimately show ?thesis using Inr by blast
  qed
qed

lemma commit_files_decompose:
  "(isl (fst (commit_files h r files msg)) \<and>
    (\<forall>x\<in>set (snd (commit_files h r files msg)). \<forall>req rep. x \<noteq> Patch_ref req rep)) \<or>
   (\<exists>token baseSha treeData newCommitData pre.
      (\<forall>x\<in>set pre. \<forall>req rep. x \<noteq> Patch_ref req rep) \<and>
      GITHUB_TOKEN h = Some token \<and>
      fst (create_commit h r token msg (sha treeData) baseSha) = Inr newCommitData \<and>
      snd (commit_files h r files msg) =
        pre @ [Patch_ref (update_ref_request h token (commit_sha newCommitData))
                 (fetch_update_ref r (update_ref_request h token (commit_sha newCommitData)))] \<and>
      fst (commit_files h r files msg) =
        (case fst (update_reference h r token (commit_sha newCommitData)) of
           Inl e \<Rightarrow> Inl (rethrow ''Failed to commit files: '' e)
         | Inr u \<Rightarrow> Inr (simplified newCommitData ''files'' (processedFiles files) treeData)))"
proof (cases "fst (githubToken h)")
  case (Inl e)
  then show ?thesis by (simp add: fst_commit_files snd_commit_files)
next
  case token: (Inr token)
  then have tok: "GITHUB_TOKEN h = Some token" by (simp add: githubToken_Inr)
  show ?thesis
  proof (cases "fst (get_branch_reference h r token)")
    case (Inl e)
    then show ?thesis using token by (simp add: fst_commit_files snd_commit_files)
  next
    case baseSha: (Inr baseSha)
    show ?thesis
    proof (cases "fst (get_base_commit h r token baseSha)")
      case (Inl e)
      then show ?thesis using token baseSha by (simp add: fst_commit_files snd_commit_files)
    next
      case baseTreeSha: (Inr baseTreeSha)
      show ?thesis
      proof (cases "fst (read_tree_entries h (processedFiles files))")
        case (Inl e)
        then show ?thesis using token baseSha baseTreeSha
          by (auto simp: fst_commit_files snd_commit_files)
      next
        case es: (Inr es)
        let ?W = "write_commit h r token msg baseSha baseTreeSha es ''files'' (processedFiles files)"
        let ?pre = "Get_ref (ref_request h token) (fetch_ref r (ref_request h token)) #
                    Get_commit (commit_request h token baseSha)
                      (fetch_commit r (commit_request h token baseSha)) #
                    map (\<lambda>p. Read_file (fullPath h p) (readFile h (fullPath h p)))
                      (processedFiles files)"
        have sndX: "snd (commit_files h r files msg) = ?pre @ snd ?W"
          using token baseSha baseTreeSha es by (simp add: snd_commit_files)
        have fstX: "fst (commit_files h r files msg) =
                      (case fst ?W of Inl c \<Rightarrow> Inl (rethrow ''Failed to commit files: '' c)
                       | Inr a \<Rightarrow> Inr a)"
          using token baseSha baseTreeSha es by (simp add: fst_commit_files)
        have pre: "\<forall>x\<in>set ?pre. \<forall>req rep. x \<noteq> Patch_ref req rep" by auto
        from write_commit_decompose [of h r token msg baseSha baseTreeSha es "''files''"
              "processedFiles files"]
        show ?thesis
        proof (elim disjE conjE exE)
          assume "isl (fst ?W)" and "\<forall>x\<in>set (snd ?W). \<forall>req rep. x \<noteq> Patch_ref req rep"
          then show ?thesis using pre unfolding sndX fstX by (auto simp: isl_def)
        next
          fix treeData newCommitData pre'
          assume a: "\<forall>x\<in>set pre'. \<forall>req rep. x \<noteq> Patch_ref req rep"
            "fst (create_commit h r token msg (sha treeData) baseSha) = Inr newCommitData"
            "snd ?W = pre' @ [Patch_ref (update_ref_request h token (commit_sha newCommitData))
                 (fetch_update_ref r (update_ref_request h token (commit_sha newCommitData)))]"
            "fst ?W = (case fst (update_reference h r token (commit_sha newCommitData)) of
                 Inl e \<Rightarrow> Inl e
               | Inr u \<Rightarrow> Inr (simplified newCommitData ''files'' (processedFiles files) treeData))"
          have 1: "\<forall>x\<in>set (?pre @ pre'). \<forall>req rep. x \<noteq> Patch_ref req rep"
            using pre a(1) by auto
          have 2: "snd (commit_files h r files msg) =
                   (?pre @ pre') @ [Patch_ref (update_ref_request h token (commit_sha newCommitData))
                 (fetch_update_ref r (update_ref_request h token (commit_sha newCommitData)))]"
            unfolding sndX a(3) by simp
          have 3: "fst (commit_files h r files msg) =
              (case fst (update_reference h r token (commit_sha newCommitData)) of
                 Inl e \<Rightarrow> Inl (rethrow ''Failed to commit files: '' e)
               | Inr u \<Rightarrow> Inr (simplified newCommitData ''files'' (processedFiles files) treeData))"
            unfolding fstX a(4) by (simp split: sum.splits)
          show ?thesis using 1 2 3 tok a(2) by blast
        qed
      qed
    qed
  qed
qed

lemma delete_files_decompose:
  "(isl (fst (delete_files h r paths msg)) \<and>
    (\<forall>x\<in>set (snd (delete_files h r paths msg)). \<forall>req rep. x \<noteq> Patch_ref req rep)) \<or>
   (\<exists>token baseSha treeData newCommitData pre processed.
      (\<forall>x\<in>set pre. \<forall>req rep. x \<noteq> Patch_ref req rep) \<and>
      GITHUB_TOKEN h = Some token \<and>
      fst (create_commit h r token msg (sha treeData) baseSha) = Inr newCommitData \<and>
      snd (delete_files h r paths msg) =
        pre @ [Patch_ref (update_ref_request h token (commit_sha newCommitData))
                 (fetch_update_ref r (update_ref_request h token (commit_sha newCommitData)))] \<and>
      fst (delete_files h r paths msg) =
        (case fst (update_reference h r token (commit_sha newCommitData)) of
           Inl e \<Rightarrow> Inl (rethrow ''Failed to delete files: '' e)
         | Inr u \<Rightarrow> Inr (simplified newCommitData ''deletedFiles'' processed treeData)))"
proof (cases "fst (githubToken h)")
  case (Inl e)
  then show ?thesis by (simp add: fst_delete_files snd_delete_files)
next
  case token: (Inr token)
  then have tok: "GITHUB_TOKEN h = Some token" by (simp add: githubToken_Inr)
  show ?thesis
  proof (cases "processedPaths (cwd h) paths")
    case (Inl e)
    then show ?thesis using token by (simp add: fst_delete_files snd_delete_files)
  next
    case processed: (Inr processed)
    show ?thesis
    proof (cases "fst (get_branch_reference h r token)")
      case (Inl e)
      then show ?thesis using token processed by (simp add: fst_delete_files snd_delete_files)
    next
      case baseSha: (Inr baseSha)
      show ?thesis
      proof (cases "fst (get_base_commit h r token baseSha)")
        case (Inl e)
        then show ?thesis using token processed baseSha
          by (simp add: fst_delete_files snd_delete_files)
      next
        case baseTreeSha: (Inr baseTreeSha)
        let ?W = "write_commit h r token msg baseSha baseTreeSha (map delete_entry processed)
                    ''deletedFiles'' processed"
        let ?pre = "[Get_ref (ref_request h token) (fetch_ref r (ref_request h token)),
                     Get_commit (commit_request h token baseSha)
                       (fetch_commit r (commit_request h token baseSha))]"
        have sndX: "snd (delete_files h r paths msg) = ?pre @ snd ?W"
          using token processed baseSha baseTreeSha by (simp add: snd_delete_files)
        have fstX: "fst (delete_files h r paths msg) =
                      (case fst ?W of Inl c \<Rightarrow> Inl (rethrow ''Failed to delete files: '' c)
                       | Inr a \<Rightarrow> Inr a)"
          using token processed baseSha baseTreeSha by (simp add: fst_delete_files)
        have pre: "\<forall>x\<in>set ?pre. \<forall>req rep. x \<noteq> Patch_ref req rep" by auto
        from write_commit_decompose [of h r token msg baseSha baseTreeSha
              "map delete_entry processed" "''deletedFiles''" processed]
        show ?thesis
        proof (elim disjE conjE exE)
          assume "isl (fst ?W)" and "\<forall>x\<in>set (snd ?W). \<forall>req rep. x \<noteq> Patch_ref req rep"
          then show ?thesis using pre unfolding sndX fstX by (auto simp: isl_def)
        next
          fix treeData newCommitData pre'
          assume a: "\<forall>x\<in>set pre'. \<forall>req rep. x \<noteq> Patch_ref req rep"
            "fst (create_commit h r token msg (sha treeData) baseSha) = Inr newCommitData"
            "snd ?W = pre' @ [Patch_ref (update_ref_request h token (commit_sha newCommitData))
                 (fetch_update_ref r (update_ref_request h token (commit_sha newCommitData)))]"
            "fst ?W = (case fst (update_reference h r token (commit_sha newCommitData)) of
                 Inl e \<Rightarrow> Inl e
               | Inr u \<Rightarrow> Inr (simplified newCommitData ''deletedFiles'' processed treeData))"
          have 1: "\<forall>x\<in>set (?pre @ pre'). \<forall>req rep. x \<noteq> Patch_ref req rep"
            using pre a(1) by auto
          have 2: "snd (delete_files h r paths msg) =
                   (?pre @ pre') @ [Patch_ref (update_ref_request h token (commit_sha newCommitData))
                 (fetch_update_ref r (update_ref_request h token (commit_sha newCommitData)))]"
            unfolding sndX a(3) by simp
          have 3: "fst (delete_files h r paths msg) =
              (case fst (update_reference h r token (commit_sha newCommitData)) of
                 Inl e \<Rightarrow> Inl (rethrow ''Failed to delete files: '' e)
               | Inr u \<Rightarrow> Inr (simplified newCommitData ''deletedFiles'' processed treeData))"
            unfolding fstX a(4) by (simp split: sum.splits)
          show ?thesis using 1 2 3 tok a(2) by blast
        qed
      qed
    qed
  qed
qed

lemma either_decompose:
  assumes "commit_files h r files msg = (res, tr) \<or> delete_files h r files msg = (res, tr)"
  shows "(isl res \<and> (\<forall>x\<in>set tr. \<forall>req rep. x \<noteq> Patch_ref req rep)) \<or>
         (\<exists>token baseSha treeData newCommitData pre key ps failed_to.
            (\<forall>x\<in>set pre. \<forall>req rep. x \<noteq> Patch_ref req rep) \<and>
            GITHUB_TOKEN h = Some token \<and>
            fst (create_commit h r token msg (sha treeData) baseSha) = Inr newCommitData \<and>
            tr = pre @ [Patch_ref (update_ref_request h token (commit_sha newCommitData))
                     (fetch_update_ref r (update_ref_request h token (commit_sha newCommitData)))] \<and>
            res = (case fst (update_reference h r token (commit_sha newCommitData)) of
                     Inl e \<Rightarrow> Inl (rethrow failed_to e)
                   | Inr u \<Rightarrow> Inr (simplified newCommitData key ps treeData)))"
  using assms
proof
  assume "commit_files h r files msg = (res, tr)"
  then have "fst (commit_files h r files msg) = res" "snd (commit_files h r files msg) = tr"
    by simp_all
  with commit_files_decompose [of h r files msg] show ?thesis by metis
next
  assume "delete_files h r files msg = (res, tr)"
  then have "fst (delete_files h r files msg) = res" "snd (delete_files h r files msg) = tr"
    by simp_all
  with delete_files_decompose [of h r files msg] show ?thesis by metis
qed

lemma patch_is_last:
  assumes "commit_files h r files msg = (res, tr) \<or> delete_files h r files msg = (res, tr)"
    and "Patch_ref req rep \<in> set tr"
  shows "\<exists>token newCommitData treeData pre key ps failed_to.
           (\<forall>x\<in>set pre. \<forall>req rep. x \<noteq> Patch_ref req rep) \<and>
           tr = pre @ [Patch_ref req rep] \<and>
           req = update_ref_request h token (commit_sha newCommitData) \<and>
           rep = fetch_update_ref r req \<and>
           res = (case fst (update_reference h r token (commit_sha newCommitData)) of
                     Inl e \<Rightarrow> Inl (rethrow failed_to e)
                   | Inr u \<Rightarrow> Inr (simplified newCommitData key ps treeData))"
proof -
  from either_decompose [OF assms(1)] assms(2)
  obtain token treeData newCommitData pre key ps failed_to where
    pre: "\<forall>x\<in>set pre. \<forall>req rep. x \<noteq> Patch_ref req rep" and
    tr: "tr = pre @ [Patch_ref (update_ref_request h token (commit_sha newCommitData))
                     (fetch_update_ref r (update_ref_request h token (commit_sha newCommitData)))]" and
    res: "res = (case fst (update_reference h r token (commit_sha newCommitData)) of
                     Inl e \<Rightarrow> Inl (rethrow failed_to e)
                   | Inr u \<Rightarrow> Inr (simplified newCommitData key ps treeData))"
    by blast
  from assms(2) pre have "Patch_ref req rep = Patch_ref (update_ref_request h token (commit_sha newCommitData))
                     (fetch_update_ref r (update_ref_request h token (commit_sha newCommitData)))"
    unfolding tr by auto
  then have "req = update_ref_request h token (commit_sha newCommitData)"
    "rep = fetch_update_ref r req" by simp_all
  with pre tr res show ?thesis by blast
qed

section \<open>Runs on the concrete host\<close>

lemma run_ok:
  "commit_files host0 remote_ok [''README.md''] ''update docs'' =
     (Inr (simplified new_commit_c2 ''files'' [''README.md''] (GitHubTree ''tree2'')),
      [get_ref_base1, get_commit_base1, Read_file ''/repo/README.md'' (Inr ''# demo''),
       post_tree_tree2 [blob_entry ''README.md'' ''# demo''], post_commit_c2 ''update docs'',
       patch_ref_c2 (replies 200 ''ref'' ())])"
  by code_simp

lemma run_500:
  "commit_files host0 remote_500 [''README.md''] ''update docs'' =
     (Inl (new_Error ''Failed to update reference: 500 - Internal Server Error''),
      [get_ref_base1, get_commit_base1, Read_file ''/repo/README.md'' (Inr ''# demo''),
       post_tree_tree2 [blob_entry ''README.md'' ''# demo''], post_commit_c2 ''update docs'',
       patch_ref_c2 internal_fault])"
  by code_simp

lemma run_down:
  "commit_files host0 remote_down [''README.md''] ''update docs'' =
     (Inl (new_Error ''Network error during reference update: socket hang up''),
      [get_ref_base1, get_commit_base1, Read_file ''/repo/README.md'' (Inr ''# demo''),
       post_tree_tree2 [blob_entry ''README.md'' ''# demo''], post_commit_c2 ''update docs'',
       patch_ref_c2 (Rejects (new_Error ''socket hang up''))])"
  by code_simp

lemma run_missing:
  "commit_files host0 remote_ok [''README.md'', ''/missing.md''] ''update docs'' =
     (Inl (read_failure ''/repo/missing.md'' (ENOENT ''/repo/missing.md'')),
      [get_ref_base1, get_commit_base1, Read_file ''/repo/README.md'' (Inr ''# demo''),
       Read_file ''/repo/missing.md'' (Inl (ENOENT ''/repo/missing.md''))])"
  by code_simp

lemma run_absolute:
  "commit_files host0 remote_ok [''//etc/passwd''] ''update docs'' =
     (Inr (simplified new_commit_c2 ''files'' [''/etc/passwd''] (GitHubTree ''tree2'')),
      [get_ref_base1, get_commit_base1, Read_file ''/etc/passwd'' (Inr ''root:x:0:0''),
       post_tree_tree2 [blob_entry ''/etc/passwd'' ''root:x:0:0''], post_commit_c2 ''update docs'',
       patch_ref_c2 (replies 200 ''ref'' ())])"
  by code_simp

lemma run_delete:
  "delete_files host0 remote_ok [''docs/old.md'', ''tmp.txt''] ''remove old docs'' =
     (Inr (simplified new_commit_c2 ''deletedFiles'' [''docs/old.md'', ''tmp.txt'']
            (GitHubTree ''tree2'')),
      [get_ref_base1, get_commit_base1,
       post_tree_tree2 [delete_entry ''docs/old.md'', delete_entry ''tmp.txt''],
       post_commit_c2 ''remove old docs'', patch_ref_c2 (replies 200 ''ref'' ())])"
  by code_simp

lemma run_delete_sibling:
  "delete_files host0 remote_ok [''/repo-other/file''] ''remove'' =
     (Inr (simplified new_commit_c2 ''deletedFiles'' [''other/file''] (GitHubTree ''tree2'')),
      [get_ref_base1, get_commit_base1, post_tree_tree2 [delete_entry ''other/file''],
       post_commit_c2 ''remove'', patch_ref_c2 (replies 200 ''ref'' ())])"
  by code_simp

lemma no_sha_500:
  "\<not> carries (new_Error ''Failed to update reference: 500 - Internal Server Error'') ''tree2'' \<and>
   \<not> carries (new_Error ''Failed to update reference: 500 - Internal Server Error'') ''c2''"
  by code_simp

lemma no_sha_down:
  "\<not> carries (new_Error ''Network error during reference update: socket hang up'') ''tree2'' \<and>
   \<not> carries (new_Error ''Network error during reference update: socket hang up'') ''c2''"
  by code_simp

lemma run_opaque:
  "commit_files host0 remote_opaque [''README.md''] ''update docs'' =
     (Inl (new_Error ''Failed to commit files: Unknown error occurred''),
      [Get_ref (ref_request host0 ''ghs_token'') (Rejects plain_object)])"
  by code_simp

lemma relative_paths: "\<forall>p\<in>set [''docs/old.md'', ''tmp.txt'']. \<not> startsWith_slash p"
  by (simp add: startsWith_slash_def)

lemma patch_500_issued:
  "Patch_ref (update_ref_request host0 ''ghs_token'' ''c2'') internal_fault \<in>
     set [get_ref_base1, get_commit_base1, Read_file ''/repo/README.md'' (Inr ''# demo''),
          post_tree_tree2 [blob_entry ''README.md'' ''# demo''], post_commit_c2 ''update docs'',
          patch_ref_c2 internal_fault]"
  by (simp add: patch_ref_c2_def)

lemma internal_fault_refused: "\<not> acknowledged internal_fault"
  by (simp add: internal_fault_def ok_def)

lemma patch_ok_issued:
  "Patch_ref (update_ref_request host0 ''ghs_token'' ''c2'') (replies 200 ''ref'' ()) \<in>
     set [get_ref_base1, get_commit_base1, Read_file ''/repo/README.md'' (Inr ''# demo''),
          post_tree_tree2 [blob_entry ''README.md'' ''# demo''], post_commit_c2 ''update docs'',
          patch_ref_c2 (replies 200 ''ref'' ())]"
  by (simp add: patch_ref_c2_def)

lemma replies_200_acknowledged: "acknowledged (replies 200 t j)"
  by (simp add: replies_def ok_def)

lemma missing_unreadable:
  "\<exists>p\<in>set (processedFiles [''README.md'', ''/missing.md'']). isl (readFile host0 (fullPath host0 p))"
  by code_simp

lemma host0_token: "GITHUB_TOKEN host0 = Some ''ghs_token'' \<and> ''ghs_token'' \<noteq> []"
  by (simp add: host0_def)

lemma remote_ok_ref:
  "fetch_ref remote_ok q = Resolves \<lparr>status = 200, body_text = Inr ''ref'', body_json = Inr (GitHubRef ''base1'')\<rparr>"
  by (simp add: remote_ok_def replies_def)

lemma remote_ok_commit:
  "fetch_commit remote_ok q = Resolves \<lparr>status = 200, body_text = Inr ''commit'', body_json = Inr (GitHubCommit ''tree1'')\<rparr>"
  by (simp add: remote_ok_def replies_def)

lemma read_absolute_issued:
  "Read_file ''/etc/passwd'' (Inr ''root:x:0:0'') \<in>
     set [get_ref_base1, get_commit_base1, Read_file ''/etc/passwd'' (Inr ''root:x:0:0''),
          post_tree_tree2 [blob_entry ''/etc/passwd'' ''root:x:0:0''],
          post_commit_c2 ''update docs'', patch_ref_c2 (replies 200 ''ref'' ())]"
  by simp

lemma sibling_path:
  "startsWith_slash ''/repo-other/file'' \<and> startsWith ''/repo-other/file'' (cwd host0)"
  by code_simp

lemma sibling_path_dropped: "drop (length (cwd host0) + 1) ''/repo-other/file'' = ''other/file''"
  by code_simp

lemma cwd_absolute: "startsWith_slash (cwd host0)"
  by code_simp

lemma sibling_all_inside:
  "\<forall>p\<in>set [''/repo-other/file'']. startsWith_slash p \<longrightarrow> startsWith p (cwd host0)"
  by code_simp

lemma post_tree_sibling_issued:
  "Post_tree (tree_request host0 ''ghs_token'' ''tree1'' [delete_entry ''other/file''])
     (replies 201 ''tree'' (GitHubTree ''tree2'')) \<in>
   set (snd (delete_files host0 remote_ok [''/repo-other/file''] ''remove''))"
  unfolding run_delete_sibling by (simp add: post_tree_tree2_def)

lemma steps_resolve:
  "GITHUB_TOKEN host0 = Some ''ghs_token'' \<and> ''ghs_token'' \<noteq> [] \<and>
   fetch_ref remote_ok (ref_request host0 ''ghs_token'') =
     Resolves \<lparr>status = 200, body_text = Inr ''ref'', body_json = Inr (GitHubRef ''base1'')\<rparr> \<and>
   ok \<lparr>status = 200, body_text = Inr ''ref'', body_json = Inr (GitHubRef ''base1'')\<rparr> \<and>
   body_json \<lparr>status = 200, body_text = Inr ''ref'', body_json = Inr (GitHubRef ''base1'')\<rparr> =
     Inr (GitHubRef ''base1'') \<and>
   fetch_commit remote_ok (commit_request host0 ''ghs_token'' (object_sha (GitHubRef ''base1''))) =
     Resolves \<lparr>status = 200, body_text = Inr ''commit'',
               body_json = Inr (GitHubCommit ''tree1'')\<rparr> \<and>
   ok \<lparr>status = 200, body_text = Inr ''commit'', body_json = Inr (GitHubCommit ''tree1'')\<rparr> \<and>
   body_json \<lparr>status = 200, body_text = Inr ''commit'',
              body_json = Inr (GitHubCommit ''tree1'')\<rparr> = Inr (GitHubCommit ''tree1'')"
  by (simp add: host0_def remote_ok_def replies_def ok_def)

lemma absolute_readable:
  "\<forall>p\<in>set (processedFiles [''//etc/passwd'']). \<not> isl (readFile host0 (fullPath host0 p))"
  by code_simp

section \<open>The claims\<close>

subsection \<open>C1: what the error of a failed reference update carries\<close>

text \<open>
  C1 as stated does not hold. On \<open>host0\<close> the tree \<^verbatim>\<open>tree2\<close> and the commit \<^verbatim>\<open>c2\<close> are
  created, then the reference update is answered with status 500, or fails at transport
  level. The error handed to the caller is built from the status and the body of the
  response, or from the message of the transport error; neither sha occurs in its message,
  its stack or its string form.
\<close>

theorem reference_update_error_counterexample:
  "commit_files host0 remote_500 [''README.md''] ''update docs'' =
     (Inl (new_Error ''Failed to update reference: 500 - Internal Server Error''),
      [get_ref_base1, get_commit_base1, Read_file ''/repo/README.md'' (Inr ''# demo''),
       post_tree_tree2 [blob_entry ''README.md'' ''# demo''], post_commit_c2 ''update docs'',
       patch_ref_c2 internal_fault]) \<and>
   \<not> carries (new_Error ''Failed to update reference: 500 - Internal Server Error'') ''tree2'' \<and>
   \<not> carries (new_Error ''Failed to update reference: 500 - Internal Server Error'') ''c2'' \<and>
   commit_files host0 remote_down [''README.md''] ''update docs'' =
     (Inl (new_Error ''Network error during reference update: socket hang up''),
      [get_ref_base1, get_commit_base1, Read_file ''/repo/README.md'' (Inr ''# demo''),
       post_tree_tree2 [blob_entry ''README.md'' ''# demo''], post_commit_c2 ''update docs'',
       patch_ref_c2 (Rejects (new_Error ''socket hang up''))]) \<and>
   \<not> carries (new_Error ''Network error during reference update: socket hang up'') ''tree2'' \<and>
   \<not> carries (new_Error ''Network error during reference update: socket hang up'') ''c2''"
  using run_500 run_down no_sha_500 no_sha_down by simp

text \<open>
  C1, amended. When the reference update of \<^verbatim>\<open>commit_files\<close> or \<^verbatim>\<open>delete_files\<close> is not
  acknowledged, the error handed to the caller is determined by the reply to that request
  alone: \<^verbatim>\<open>Network error during reference update:\<close> followed by the message of the
  transport error (or \<^verbatim>\<open>Unknown fetch error\<close>), or \<^verbatim>\<open>Failed to update reference:\<close>
  followed by the status and the response body (or \<^verbatim>\<open>Unable to read error response\<close>).
  The code puts no sha into it: the shas of the tree and of the commit created before
  occur in it only where the reply of the remote itself contains them.
\<close>

theorem reference_update_failure_error:
  assumes "commit_files h r files msg = (res, tr) \<or> delete_files h r files msg = (res, tr)"
    and "Patch_ref req rep \<in> set tr" and "\<not> acknowledged rep"
  shows "res = Inl (new_Error
           (case rep of
              Rejects fetchError \<Rightarrow>
                ''Network error during reference update: '' @
                (if message fetchError = [] then ''Unknown fetch error'' else message fetchError)
            | Resolves resp \<Rightarrow>
                ''Failed to update reference: '' @ string_of_nat (status resp) @ '' - '' @
                (case body_text resp of
                   Inl textError \<Rightarrow> ''Unable to read error response''
                 | Inr errorText \<Rightarrow> errorText)))"
proof -
  from patch_is_last [OF assms(1,2)]
  obtain token newCommitData treeData key ps failed_to where
    req: "req = update_ref_request h token (commit_sha newCommitData)" and
    rep: "rep = fetch_update_ref r req" and
    res: "res = (case fst (update_reference h r token (commit_sha newCommitData)) of
                     Inl e \<Rightarrow> Inl (rethrow failed_to e)
                   | Inr u \<Rightarrow> Inr (simplified newCommitData key ps treeData))"
    by blast
  show ?thesis
    unfolding res fst_update_reference using rep req assms(3)
    by (auto simp: rethrow_new_Error_hd split: fetched.splits)
qed

theorem reference_update_failure_error_witness:
  "commit_files host0 remote_500 [''README.md''] ''update docs'' =
     (Inl (new_Error ''Failed to update reference: 500 - Internal Server Error''),
      [get_ref_base1, get_commit_base1, Read_file ''/repo/README.md'' (Inr ''# demo''),
       post_tree_tree2 [blob_entry ''README.md'' ''# demo''], post_commit_c2 ''update docs'',
       patch_ref_c2 internal_fault]) \<and>
   \<not> acknowledged internal_fault \<and>
   new_Error ''Failed to update reference: 500 - Internal Server Error'' =
     new_Error (''Failed to update reference: '' @ string_of_nat 500 @ '' - '' @
                ''Internal Server Error'')"
  using reference_update_failure_error
          [OF disjI1 [OF run_500] patch_500_issued internal_fault_refused]
        run_500 internal_fault_refused
  by (simp add: internal_fault_def)

subsection \<open>C2: after an acknowledged reference update\<close>

text \<open>
  C2 as stated does not hold. In the successful run on \<open>host0\<close> the reference is read
  once, in step 1; the acknowledged update is the last effect and nothing is issued after
  it, so no read-back of the reference takes place.
\<close>

theorem read_back_counterexample:
  "commit_files host0 remote_ok [''README.md''] ''update docs'' =
     (Inr (simplified new_commit_c2 ''files'' [''README.md''] (GitHubTree ''tree2'')),
      [get_ref_base1, get_commit_base1, Read_file ''/repo/README.md'' (Inr ''# demo''),
       post_tree_tree2 [blob_entry ''README.md'' ''# demo''], post_commit_c2 ''update docs'',
       patch_ref_c2 (replies 200 ''ref'' ())]) \<and>
   acknowledged (replies 200 ''ref'' () :: unit fetched) \<and>
   after_patch
     [get_ref_base1, get_commit_base1, Read_file ''/repo/README.md'' (Inr ''# demo''),
      post_tree_tree2 [blob_entry ''README.md'' ''# demo''], post_commit_c2 ''update docs'',
      patch_ref_c2 (replies 200 ''ref'' ())] = []"
  using run_ok
  by (simp add: get_ref_base1_def get_commit_base1_def post_tree_tree2_def post_commit_c2_def
        patch_ref_c2_def replies_def ok_def)

text \<open>
  C2, amended. When the reference update of \<^verbatim>\<open>commit_files\<close> or \<^verbatim>\<open>delete_files\<close> is
  acknowledged, it is the last effect of the invocation: no request follows it, and the
  tool returns the success result, whose commit sha is the sha the update asked for.
\<close>

theorem no_read_back_after_update:
  assumes "commit_files h r files msg = (res, tr) \<or> delete_files h r files msg = (res, tr)"
    and "Patch_ref req rep \<in> set tr" and "acknowledged rep"
  shows "last tr = Patch_ref req rep \<and> after_patch tr = [] \<and>
         (\<exists>result. res = Inr result \<and> body req = Some (ref_body (result_sha result) False))"
proof -
  from patch_is_last [OF assms(1,2)]
  obtain token newCommitData treeData pre key ps failed_to where
    pre: "\<forall>x\<in>set pre. \<forall>req rep. x \<noteq> Patch_ref req rep" and
    tr: "tr = pre @ [Patch_ref req rep]" and
    req: "req = update_ref_request h token (commit_sha newCommitData)" and
    rep: "rep = fetch_update_ref r req" and
    res: "res = (case fst (update_reference h r token (commit_sha newCommitData)) of
                     Inl e \<Rightarrow> Inl (rethrow failed_to e)
                   | Inr u \<Rightarrow> Inr (simplified newCommitData key ps treeData))"
    by blast
  have "res = Inr (simplified newCommitData key ps treeData)"
    unfolding res fst_update_reference using rep req assms(3)
    by (auto split: fetched.splits)
  moreover have "after_patch tr = []"
    unfolding tr using no_patch_after_patch [OF pre] by simp
  ultimately show ?thesis
    using tr req by (simp add: update_ref_request_def simplified_def)
qed

theorem no_read_back_after_update_witness:
  "commit_files host0 remote_ok [''README.md''] ''update docs'' =
     (Inr (simplified new_commit_c2 ''files'' [''README.md''] (GitHubTree ''tree2'')),
      [get_ref_base1, get_commit_base1, Read_file ''/repo/README.md'' (Inr ''# demo''),
       post_tree_tree2 [blob_entry ''README.md'' ''# demo''], post_commit_c2 ''update docs'',
       patch_ref_c2 (replies 200 ''ref'' ())]) \<and>
   acknowledged (replies 200 ''ref'' () :: unit fetched) \<and>
   last [get_ref_base1, get_commit_base1, Read_file ''/repo/README.md'' (Inr ''# demo''),
         post_tree_tree2 [blob_entry ''README.md'' ''# demo''], post_commit_c2 ''update docs'',
         patch_ref_c2 (replies 200 ''ref'' ())] =
     Patch_ref (update_ref_request host0 ''ghs_token'' ''c2'') (replies 200 ''ref'' ()) \<and>
   body (update_ref_request host0 ''ghs_token'' ''c2'') =
     Some (ref_body
             (result_sha (simplified new_commit_c2 ''files'' [''README.md''] (GitHubTree ''tree2'')))
             False)"
  using no_read_back_after_update
          [OF disjI1 [OF run_ok] patch_ok_issued replies_200_acknowledged]
        run_ok replies_200_acknowledged [of "''ref''" "()"]
  by simp

subsection \<open>C3: an input file that cannot be read\<close>

text \<open>
  C3 as stated does not hold. The files are read in step 3, after the reads of the
  reference and of the base commit. On \<open>host0\<close> the file \<^verbatim>\<open>missing.md\<close> cannot be read, and
  the remote does not know the branch: the invocation fails in step 1 with an error that
  does not name the file.
\<close>

theorem unreadable_file_counterexample:
  "commit_files host0 remote_404 [''missing.md''] ''update docs'' =
     (Inl (new_Error ''Failed to get branch reference: 404''),
      [Get_ref (ref_request host0 ''ghs_token'')
         (Resolves \<lparr>status = 404, body_text = Inr ''Not Found'',
                    body_json = Inl (new_Error ''Unexpected token N in JSON'')\<rparr>)]) \<and>
   readFile host0 (fullPath host0 ''missing.md'') = Inl (ENOENT ''/repo/missing.md'') \<and>
   \<not> carries (new_Error ''Failed to get branch reference: 404'') ''missing.md''"
  by code_simp

text \<open>
  C3, amended. When at least one input file of \<^verbatim>\<open>commit_files\<close> cannot be read, the
  invocation fails and issues no remote write (no tree creation, no commit creation, no
  reference update). When moreover the token is present and steps 1 and 2 succeed, the
  error is \<^verbatim>\<open>Failed to read file\<close> with the resolved location of an input file that
  could not be read, and the cause.
\<close>

theorem unreadable_file_no_remote_write:
  assumes "\<exists>p\<in>set (processedFiles files). isl (readFile h (fullPath h p))"
    and "commit_files h r files msg = (res, tr)"
  shows "isl res \<and> (\<forall>x\<in>set tr. \<not> is_write x) \<and>
         (\<forall>token refResp refData commitResp commitData.
            GITHUB_TOKEN h = Some token \<and> token \<noteq> [] \<and>
            fetch_ref r (ref_request h token) = Resolves refResp \<and> ok refResp \<and>
            body_json refResp = Inr refData \<and>
            fetch_commit r (commit_request h token (object_sha refData)) = Resolves commitResp \<and>
            ok commitResp \<and> body_json commitResp = Inr commitData \<longrightarrow>
            (\<exists>p\<in>set (processedFiles files). \<exists>cause.
               readFile h (fullPath h p) = Inl cause \<and>
               res = Inl (read_failure (fullPath h p) cause) \<and>
               carries (read_failure (fullPath h p) cause) (fullPath h p)))"
proof -
  from assms(1) obtain e where e: "fst (read_tree_entries h (processedFiles files)) = Inl e"
    using read_tree_entries_fails_iff [of h "processedFiles files"] by (auto simp: isl_def)
  from assms(2) have res: "res = fst (commit_files h r files msg)"
    and tr: "tr = snd (commit_files h r files msg)" by simp_all
  have 1: "isl res"
    unfolding res fst_commit_files using e by (simp split: sum.splits)
  have 2: "\<forall>x\<in>set tr. \<not> is_write x"
    unfolding tr snd_commit_files using e by (auto split: sum.splits)
  have 3: "\<exists>p\<in>set (processedFiles files). \<exists>cause.
               readFile h (fullPath h p) = Inl cause \<and>
               res = Inl (read_failure (fullPath h p) cause) \<and>
               carries (read_failure (fullPath h p) cause) (fullPath h p)"
    if a: "GITHUB_TOKEN h = Some token \<and> token \<noteq> [] \<and>
            fetch_ref r (ref_request h token) = Resolves refResp \<and> ok refResp \<and>
            body_json refResp = Inr refData \<and>
            fetch_commit r (commit_request h token (object_sha refData)) = Resolves commitResp \<and>
            ok commitResp \<and> body_json commitResp = Inr commitData"
    for token refResp refData commitResp commitData
  proof -
    from a have t: "fst (githubToken h) = Inr token" by (simp add: githubToken_Inr)
    from a have b: "fst (get_branch_reference h r token) = Inr (object_sha refData)"
      by (auto simp: get_branch_reference_Inr)
    from a have c: "fst (get_base_commit h r token (object_sha refData)) = Inr (tree_sha commitData)"
      by (auto simp: get_base_commit_Inr)
    have "res = Inl (rethrow ''Failed to commit files: '' e)"
      unfolding res fst_commit_files using t b c e by simp
    moreover from read_tree_entries_Inl [OF e] obtain p cause where
      "p \<in> set (processedFiles files)" "readFile h (fullPath h p) = Inl cause"
      "e = read_failure (fullPath h p) cause" by blast
    ultimately show ?thesis
      using rethrow_read_failure read_failure_carries by metis
  qed
  from 1 2 3 show ?thesis by blast
qed

theorem unreadable_file_no_remote_write_witness:
  "commit_files host0 remote_ok [''README.md'', ''/missing.md''] ''update docs'' =
     (Inl (read_failure ''/repo/missing.md'' (ENOENT ''/repo/missing.md'')),
      [get_ref_base1, get_commit_base1, Read_file ''/repo/README.md'' (Inr ''# demo''),
       Read_file ''/repo/missing.md'' (Inl (ENOENT ''/repo/missing.md''))]) \<and>
   readFile host0 (fullPath host0 ''missing.md'') = Inl (ENOENT ''/repo/missing.md'') \<and>
   isl (Inl (read_failure ''/repo/missing.md'' (ENOENT ''/repo/missing.md''))
          :: thrown + simplifiedResult) \<and>
   \<not> is_write get_ref_base1 \<and> \<not> is_write get_commit_base1 \<and>
   \<not> is_write (Read_file ''/repo/README.md'' (Inr ''# demo'')) \<and>
   \<not> is_write (Read_file ''/repo/missing.md'' (Inl (ENOENT ''/repo/missing.md''))) \<and>
   (\<exists>p cause. p \<in> set (processedFiles [''README.md'', ''/missing.md'']) \<and>
      readFile host0 (fullPath host0 p) = Inl cause \<and>
      (Inl (read_failure ''/repo/missing.md'' (ENOENT ''/repo/missing.md''))
         :: thrown + simplifiedResult) = Inl (read_failure (fullPath host0 p) cause) \<and>
      carries (read_failure (fullPath host0 p) cause) (fullPath host0 p))"
proof -
  have disk: "readFile host0 (fullPath host0 ''missing.md'') = Inl (ENOENT ''/repo/missing.md'')"
    by code_simp
  have ok: "ok \<lparr>status = 200, body_text = Inr ''ref'', body_json = Inr (GitHubRef ''base1'')\<rparr>"
    "ok \<lparr>status = 200, body_text = Inr ''commit'', body_json = Inr (GitHubCommit ''tree1'')\<rparr>"
    by (simp_all add: ok_def)
  from unreadable_file_no_remote_write [OF missing_unreadable run_missing]
  show ?thesis
    using run_missing disk host0_token remote_ok_ref remote_ok_commit ok
    by (simp add: Bex_def)
qed

subsection \<open>C4: the commit created by a successful commit of files\<close>

text \<open>
  C4. A successful \<^verbatim>\<open>commit_files\<close> issued exactly these effects, in this order: the
  read of the branch reference, the read of the commit at the tip it returned, the reads
  of the files, the creation of a tree on the base tree of that commit with one entry
  (path, mode 100644, type blob, content) for each file, the creation of a commit with the
  message of the caller, the sha of the tree just created and the tip as its only parent,
  and the update of the branch reference to the sha of the commit just created, which the
  remote acknowledged.
\<close>

theorem commit_files_creates_commit:
  assumes "commit_files h r files msg = (Inr result, tr)"
  shows "\<exists>token refResp refData commitResp commitData contents treeResp treeData
            newResp newCommitData updResp.
           GITHUB_TOKEN h = Some token \<and>
           ok refResp \<and> body_json refResp = Inr refData \<and>
           ok commitResp \<and> body_json commitResp = Inr commitData \<and>
           list_all2 (\<lambda>p c. readFile h (fullPath h p) = Inr c) (processedFiles files) contents \<and>
           ok treeResp \<and> body_json treeResp = Inr treeData \<and>
           ok newResp \<and> body_json newResp = Inr newCommitData \<and>
           ok updResp \<and>
           tr = [Get_ref (ref_request h token) (Resolves refResp),
                 Get_commit (commit_request h token (object_sha refData)) (Resolves commitResp)] @
                map2 (\<lambda>p c. Read_file (fullPath h p) (Inr c)) (processedFiles files) contents @
                [Post_tree
                   \<lparr>http_method = ''POST'', url = treeUrl h, headers = write_headers token,
                    body = Some (tree_body (tree_sha commitData)
                                  (map2 (\<lambda>p c. \<lparr>path = p, mode = ''100644'', entry_type = ''blob'',
                                              entry_value = content c\<rparr>)
                                     (processedFiles files) contents))\<rparr>
                   (Resolves treeResp),
                 Post_commit
                   \<lparr>http_method = ''POST'', url = newCommitUrl h, headers = write_headers token,
                    body = Some (commit_body msg (sha treeData) [object_sha refData])\<rparr>
                   (Resolves newResp),
                 Patch_ref
                   \<lparr>http_method = ''PATCH'', url = refUrl h, headers = write_headers token,
                    body = Some (ref_body (commit_sha newCommitData) False)\<rparr>
                   (Resolves updResp)] \<and>
           result = simplified newCommitData ''files'' (processedFiles files) treeData"
proof -
  from assms obtain token tr0 baseSha tr1 baseTreeSha tr2 treeEntries tr3 tr4 where
    s0: "githubToken h = (Inr token, tr0)" and
    s1: "get_branch_reference h r token = (Inr baseSha, tr1)" and
    s2: "get_base_commit h r token baseSha = (Inr baseTreeSha, tr2)" and
    s3: "read_tree_entries h (processedFiles files) = (Inr treeEntries, tr3)" and
    s4: "write_commit h r token msg baseSha baseTreeSha treeEntries ''files''
           (processedFiles files) = (Inr result, tr4)" and
    tr: "tr = tr0 @ tr1 @ tr2 @ tr3 @ tr4"
    unfolding commit_files_def catch_Inr_iff io_bind_Inr_iff Let_def by auto
  from s0 have t0: "GITHUB_TOKEN h = Some token" "tr0 = []"
    using githubToken_Inr [of h token] githubToken_trace [of h] by auto
  from s1 obtain refResp refData where
    r1: "fetch_ref r (ref_request h token) = Resolves refResp" "ok refResp"
        "body_json refResp = Inr refData" "baseSha = object_sha refData"
    using get_branch_reference_Inr [of h r token baseSha] by auto
  have t1: "tr1 = [Get_ref (ref_request h token) (Resolves refResp)]"
    using s1 get_branch_reference_trace [of h r token] r1 by simp
  from s2 obtain commitResp commitData where
    r2: "fetch_commit r (commit_request h token baseSha) = Resolves commitResp" "ok commitResp"
        "body_json commitResp = Inr commitData" "baseTreeSha = tree_sha commitData"
    using get_base_commit_Inr [of h r token baseSha baseTreeSha] by auto
  have t2: "tr2 = [Get_commit (commit_request h token baseSha) (Resolves commitResp)]"
    using s2 get_base_commit_trace [of h r token baseSha] r2 by simp
  from read_tree_entries_Inr_trace [OF s3] obtain contents where
    r3: "list_all2 (\<lambda>p c. readFile h (fullPath h p) = Inr c) (processedFiles files) contents"
        "treeEntries = map2 blob_entry (processedFiles files) contents"
        "tr3 = map2 (\<lambda>p c. Read_file (fullPath h p) (Inr c)) (processedFiles files) contents"
    by blast
  from write_commit_Inr [OF s4] obtain treeResp treeData newResp newCommitData updResp where
    r4: "body_json treeResp = Inr treeData" "ok treeResp"
        "body_json newResp = Inr newCommitData" "ok newResp" "ok updResp"
        "tr4 = [Post_tree (tree_request h token baseTreeSha treeEntries) (Resolves treeResp),
                Post_commit (new_commit_request h token msg (sha treeData) baseSha) (Resolves newResp),
                Patch_ref (update_ref_request h token (commit_sha newCommitData)) (Resolves updResp)]"
        "result = simplified newCommitData ''files'' (processedFiles files) treeData"
    by blast
  show ?thesis
    apply (rule exI [of _ token], rule exI [of _ refResp], rule exI [of _ refData],
           rule exI [of _ commitResp], rule exI [of _ commitData], rule exI [of _ contents],
           rule exI [of _ treeResp], rule exI [of _ treeData], rule exI [of _ newResp],
           rule exI [of _ newCommitData], rule exI [of _ updResp])
    using tr t0 t1 t2 r1 r2 r3 r4
    by (simp add: tree_request_def new_commit_request_def update_ref_request_def
          blob_entry_def)
qed

theorem commit_files_creates_commit_witness:
  "commit_files host0 remote_ok [''README.md''] ''update docs'' =
     (Inr (simplified new_commit_c2 ''files'' [''README.md''] (GitHubTree ''tree2'')),
      [get_ref_base1, get_commit_base1, Read_file ''/repo/README.md'' (Inr ''# demo''),
       post_tree_tree2
         [\<lparr>path = ''README.md'', mode = ''100644'', entry_type = ''blob'',
           entry_value = content ''# demo''\<rparr>],
       post_commit_c2 ''update docs'', patch_ref_c2 (replies 200 ''ref'' ())]) \<and>
   (\<exists>token refResp refData commitResp commitData contents treeResp treeData
            newResp newCommitData updResp.
           GITHUB_TOKEN host0 = Some token \<and>
           ok refResp \<and> body_json refResp = Inr refData \<and>
           ok commitResp \<and> body_json commitResp = Inr commitData \<and>
           list_all2 (\<lambda>p c. readFile host0 (fullPath host0 p) = Inr c) (processedFiles [''README.md'']) contents \<and>
           ok treeResp \<and> body_json treeResp = Inr treeData \<and>
           ok newResp \<and> body_json newResp = Inr newCommitData \<and>
           ok updResp \<and>
           [get_ref_base1, get_commit_base1, Read_file ''/repo/README.md'' (Inr ''# demo''),
       post_tree_tree2
         [\<lparr>path = ''README.md'', mode = ''100644'', entry_type = ''blob'',
           entry_value = content ''# demo''\<rparr>],
       post_commit_c2 ''update docs'', patch_ref_c2 (replies 200 ''ref'' ())] = [Get_ref (ref_request host0 token) (Resolves refResp),
                 Get_commit (commit_request host0 token (object_sha refData)) (Resolves commitResp)] @
                map2 (\<lambda>p c. Read_file (fullPath host0 p) (Inr c)) (processedFiles [''README.md'']) contents @
                [Post_tree
                   \<lparr>http_method = ''POST'', url = treeUrl host0, headers = write_headers token,
                    body = Some (tree_body (tree_sha commitData)
                                  (map2 (\<lambda>p c. \<lparr>path = p, mode = ''100644'', entry_type = ''blob'',
                                              entry_value = content c\<rparr>)
                                     (processedFiles [''README.md'']) contents))\<rparr>
                   (Resolves treeResp),
                 Post_commit
                   \<lparr>http_method = ''POST'', url = newCommitUrl host0, headers = write_headers token,
                    body = Some (commit_body ''update docs'' (sha treeData) [object_sha refData])\<rparr>
                   (Resolves newResp),
                 Patch_ref
                   \<lparr>http_method = ''PATCH'', url = refUrl host0, headers = write_headers token,
                    body = Some (ref_body (commit_sha newCommitData) False)\<rparr>
                   (Resolves updResp)] \<and>
           (simplified new_commit_c2 ''files'' [''README.md''] (GitHubTree ''tree2'')) = simplified newCommitData ''files'' (processedFiles [''README.md'']) treeData)"
proof -
  have run: "commit_files host0 remote_ok [''README.md''] ''update docs'' =
     (Inr (simplified new_commit_c2 ''files'' [''README.md''] (GitHubTree ''tree2'')),
      [get_ref_base1, get_commit_base1, Read_file ''/repo/README.md'' (Inr ''# demo''),
       post_tree_tree2
         [\<lparr>path = ''README.md'', mode = ''100644'', entry_type = ''blob'',
           entry_value = content ''# demo''\<rparr>],
       post_commit_c2 ''update docs'', patch_ref_c2 (replies 200 ''ref'' ())])"
    using run_ok by (simp add: blob_entry_def)
  show ?thesis
    by (rule conjI [OF run commit_files_creates_commit [OF run]])
qed

subsection \<open>C5: the commit created by a successful deletion\<close>

text \<open>
  C5. A successful \<^verbatim>\<open>delete_files\<close> on paths without a leading slash issued exactly
  these effects: the read of the branch reference, the read of the commit at its tip, the
  creation of a tree on the base tree of that commit with one entry (path, mode 100644,
  type blob, sha null) for each path, the creation of a commit with the tip as its only
  parent, and the acknowledged update of the branch reference. An entry with a null sha
  asks the remote to leave the path out of the new tree.
\<close>

theorem delete_files_creates_commit:
  assumes "delete_files h r paths msg = (Inr result, tr)"
    and "\<forall>p\<in>set paths. \<not> startsWith_slash p"
  shows "\<exists>token refResp refData commitResp commitData treeResp treeData
            newResp newCommitData updResp.
           GITHUB_TOKEN h = Some token \<and>
           ok refResp \<and> body_json refResp = Inr refData \<and>
           ok commitResp \<and> body_json commitResp = Inr commitData \<and>
           ok treeResp \<and> body_json treeResp = Inr treeData \<and>
           ok newResp \<and> body_json newResp = Inr newCommitData \<and>
           ok updResp \<and>
           tr = [Get_ref (ref_request h token) (Resolves refResp),
                 Get_commit (commit_request h token (object_sha refData)) (Resolves commitResp),
                 Post_tree
                   \<lparr>http_method = ''POST'', url = treeUrl h, headers = write_headers token,
                    body = Some (tree_body (tree_sha commitData)
                             (map (\<lambda>p. \<lparr>path = p, mode = ''100644'', entry_type = ''blob'',
                                         entry_value = sha_null\<rparr>) paths))\<rparr>
                   (Resolves treeResp),
                 Post_commit
                   \<lparr>http_method = ''POST'', url = newCommitUrl h, headers = write_headers token,
                    body = Some (commit_body msg (sha treeData) [object_sha refData])\<rparr>
                   (Resolves newResp),
                 Patch_ref
                   \<lparr>http_method = ''PATCH'', url = refUrl h, headers = write_headers token,
                    body = Some (ref_body (commit_sha newCommitData) False)\<rparr>
                   (Resolves updResp)] \<and>
           result = simplified newCommitData ''deletedFiles'' paths treeData"
proof -
  have pp: "processedPaths (cwd h) paths = Inr paths"
    using assms(2) by (rule processedPaths_relative)
  from assms(1) obtain token tr0 baseSha tr1 baseTreeSha tr2 tr4 where
    s0: "githubToken h = (Inr token, tr0)" and
    s1: "get_branch_reference h r token = (Inr baseSha, tr1)" and
    s2: "get_base_commit h r token baseSha = (Inr baseTreeSha, tr2)" and
    s4: "write_commit h r token msg baseSha baseTreeSha (map delete_entry paths)
           ''deletedFiles'' paths = (Inr result, tr4)" and
    tr: "tr = tr0 @ tr1 @ tr2 @ tr4"
    unfolding delete_files_def catch_Inr_iff io_bind_Inr_iff pp by auto
  from s0 have t0: "GITHUB_TOKEN h = Some token" "tr0 = []"
    using githubToken_Inr [of h token] githubToken_trace [of h] by auto
  from s1 obtain refResp refData where
    r1: "fetch_ref r (ref_request h token) = Resolves refResp" "ok refResp"
        "body_json refResp = Inr refData" "baseSha = object_sha refData"
    using get_branch_reference_Inr [of h r token baseSha] by auto
  have t1: "tr1 = [Get_ref (ref_request h token) (Resolves refResp)]"
    using s1 get_branch_reference_trace [of h r token] r1 by simp
  from s2 obtain commitResp commitData where
    r2: "fetch_commit r (commit_request h token baseSha) = Resolves commitResp" "ok commitResp"
        "body_json commitResp = Inr commitData" "baseTreeSha = tree_sha commitData"
    using get_base_commit_Inr [of h r token baseSha baseTreeSha] by auto
  have t2: "tr2 = [Get_commit (commit_request h token baseSha) (Resolves commitResp)]"
    using s2 get_base_commit_trace [of h r token baseSha] r2 by simp
  from write_commit_Inr [OF s4] obtain treeResp treeData newResp newCommitData updResp where
    r4: "body_json treeResp = Inr treeData" "ok treeResp"
        "body_json newResp = Inr newCommitData" "ok newResp" "ok updResp"
        "tr4 = [Post_tree (tree_request h token baseTreeSha (map delete_entry paths)) (Resolves treeResp),
                Post_commit (new_commit_request h token msg (sha treeData) baseSha) (Resolves newResp),
                Patch_ref (update_ref_request h token (commit_sha newCommitData)) (Resolves updResp)]"
        "result = simplified newCommitData ''deletedFiles'' paths treeData"
    by blast
  have de: "map delete_entry paths =
            map (\<lambda>p. \<lparr>path = p, mode = ''100644'', entry_type = ''blob'', entry_value = sha_null\<rparr>) paths"
    by (simp add: delete_entry_def)
  show ?thesis
    apply (rule exI [of _ token], rule exI [of _ refResp], rule exI [of _ refData],
           rule exI [of _ commitResp], rule exI [of _ commitData],
           rule exI [of _ treeResp], rule exI [of _ treeData], rule exI [of _ newResp],
           rule exI [of _ newCommitData], rule exI [of _ updResp])
    using tr t0 t1 t2 r1 r2 r4 de
    by (simp add: tree_request_def new_commit_request_def update_ref_request_def)
qed

theorem delete_files_creates_commit_witness:
  "delete_files host0 remote_ok [''docs/old.md'', ''tmp.txt''] ''remove old docs'' =
     (Inr (simplified new_commit_c2 ''deletedFiles'' [''docs/old.md'', ''tmp.txt''] (GitHubTree ''tree2'')),
      [get_ref_base1, get_commit_base1,
       post_tree_tree2 [delete_entry ''docs/old.md'', delete_entry ''tmp.txt''],
       post_commit_c2 ''remove old docs'', patch_ref_c2 (replies 200 ''ref'' ())]) \<and>
   \<not> startsWith_slash ''docs/old.md'' \<and> \<not> startsWith_slash ''tmp.txt'' \<and>
   (\<exists>token refResp refData commitResp commitData treeResp treeData
            newResp newCommitData updResp.
           GITHUB_TOKEN host0 = Some token \<and>
           ok refResp \<and> body_json refResp = Inr refData \<and>
           ok commitResp \<and> body_json commitResp = Inr commitData \<and>
           ok treeResp \<and> body_json treeResp = Inr treeData \<and>
           ok newResp \<and> body_json newResp = Inr newCommitData \<and>
           ok updResp \<and>
           [get_ref_base1, get_commit_base1,
       post_tree_tree2 [delete_entry ''docs/old.md'', delete_entry ''tmp.txt''],
       post_commit_c2 ''remove old docs'', patch_ref_c2 (replies 200 ''ref'' ())] = [Get_ref (ref_request host0 token) (Resolves refResp),
                 Get_commit (commit_request host0 token (object_sha refData)) (Resolves commitResp),
                 Post_tree
                   \<lparr>http_method = ''POST'', url = treeUrl host0, headers = write_headers token,
                    body = Some (tree_body (tree_sha commitData)
                             (map (\<lambda>p. \<lparr>path = p, mode = ''100644'', entry_type = ''blob'',
                                         entry_value = sha_null\<rparr>) [''docs/old.md'', ''tmp.txt'']))\<rparr>
                   (Resolves treeResp),
                 Post_commit
                   \<lparr>http_method = ''POST'', url = newCommitUrl host0, headers = write_headers token,
                    body = Some (commit_body ''remove old docs'' (sha treeData) [object_sha refData])\<rparr>
                   (Resolves newResp),
                 Patch_ref
                   \<lparr>http_method = ''PATCH'', url = refUrl host0, headers = write_headers token,
                    body = Some (ref_body (commit_sha newCommitData) False)\<rparr>
                   (Resolves updResp)] \<and>
           (simplified new_commit_c2 ''deletedFiles'' [''docs/old.md'', ''tmp.txt''] (GitHubTree ''tree2'')) = simplified newCommitData ''deletedFiles'' [''docs/old.md'', ''tmp.txt''] treeData)"
  using run_delete delete_files_creates_commit [OF run_delete relative_paths]
  by (simp add: startsWith_slash_def)

subsection \<open>C6: deletion paths with a leading slash\<close>

text \<open>
  C6. The code does not keep to this claim. A path with a leading slash that does not
  start with the working directory does fail before any effect is issued (lemma
  \<open>delete_files_outside\<close>). But the test is on the characters of the path, and the
  accepted path loses \<open>length cwd + 1\<close> characters whatever follows the prefix. With the
  working directory \<^verbatim>\<open>/repo\<close>, the path \<^verbatim>\<open>/repo-other/file\<close>, which is not under that
  directory, is accepted and the deletion of \<^verbatim>\<open>other/file\<close> is submitted; \<^verbatim>\<open>/repo//x\<close>
  becomes \<^verbatim>\<open>/x\<close>, which is not relative; and with the working directory \<^verbatim>\<open>/\<close> the path
  \<^verbatim>\<open>/etc/hosts\<close> becomes \<^verbatim>\<open>tc/hosts\<close>. The message of the code's own error asks for a
  path within the current working directory.
\<close>

theorem prefix_check_accepts_sibling_directory:
  "cwd host0 = ''/repo'' \<and>
   startsWith_slash ''/repo-other/file'' \<and> startsWith ''/repo-other/file'' (cwd host0) \<and>
   \<not> startsWith ''/repo-other/file'' (cwd host0 @ ''/'') \<and>
   processedPath (cwd host0) ''/repo-other/file'' = Inr ''other/file'' \<and>
   delete_files host0 remote_ok [''/repo-other/file''] ''remove'' =
     (Inr (simplified new_commit_c2 ''deletedFiles'' [''other/file''] (GitHubTree ''tree2'')),
      [get_ref_base1, get_commit_base1,
       post_tree_tree2
         [\<lparr>path = ''other/file'', mode = ''100644'', entry_type = ''blob'',
           entry_value = sha_null\<rparr>],
       post_commit_c2 ''remove'', patch_ref_c2 (replies 200 ''ref'' ())]) \<and>
   processedPath ''/repo'' ''/repo//x'' = Inr ''/x'' \<and>
   processedPath ''/'' ''/etc/hosts'' = Inr ''tc/hosts''"
  by code_simp

subsection \<open>C7: the reference update is never forced\<close>

text \<open>
  C7. Every reference update that \<^verbatim>\<open>commit_files\<close> or \<^verbatim>\<open>delete_files\<close> issues is a
  \<^verbatim>\<open>PATCH\<close> of the branch reference whose body has \<^verbatim>\<open>force\<close> set to false. It is the last
  effect of the invocation: when the remote does not acknowledge it, as it does for a
  reference that has moved, the invocation fails and issues nothing more, so it never
  overwrites the reference by force.
\<close>

theorem reference_update_never_forced:
  assumes "commit_files h r files msg = (res, tr) \<or> delete_files h r files msg = (res, tr)"
  shows "\<forall>req rep. Patch_ref req rep \<in> set tr \<longrightarrow>
           http_method req = ''PATCH'' \<and> url req = refUrl h \<and>
           (\<exists>newSha. body req = Some (ref_body newSha False)) \<and>
           last tr = Patch_ref req rep \<and> after_patch tr = [] \<and>
           (\<not> acknowledged rep \<longrightarrow> isl res)"
proof (intro allI impI)
  fix req rep
  assume "Patch_ref req rep \<in> set tr"
  from patch_is_last [OF assms this]
  obtain token newCommitData treeData pre key ps failed_to where
    pre: "\<forall>x\<in>set pre. \<forall>req rep. x \<noteq> Patch_ref req rep" and
    tr: "tr = pre @ [Patch_ref req rep]" and
    req: "req = update_ref_request h token (commit_sha newCommitData)" and
    rep: "rep = fetch_update_ref r req" and
    res: "res = (case fst (update_reference h r token (commit_sha newCommitData)) of
                     Inl e \<Rightarrow> Inl (rethrow failed_to e)
                   | Inr u \<Rightarrow> Inr (simplified newCommitData key ps treeData))"
    by blast
  have "\<not> acknowledged rep \<longrightarrow> isl res"
    unfolding res fst_update_reference using rep req
    by (auto split: fetched.splits)
  moreover have "after_patch tr = []"
    unfolding tr using no_patch_after_patch [OF pre] by simp
  ultimately show "http_method req = ''PATCH'' \<and> url req = refUrl h \<and>
           (\<exists>newSha. body req = Some (ref_body newSha False)) \<and>
           last tr = Patch_ref req rep \<and> after_patch tr = [] \<and>
           (\<not> acknowledged rep \<longrightarrow> isl res)"
    using tr req by (simp add: update_ref_request_def)
qed

theorem reference_update_never_forced_witness:
  "commit_files host0 remote_500 [''README.md''] ''update docs'' =
     (Inl (new_Error ''Failed to update reference: 500 - Internal Server Error''),
      [get_ref_base1, get_commit_base1, Read_file ''/repo/README.md'' (Inr ''# demo''),
       post_tree_tree2 [blob_entry ''README.md'' ''# demo''], post_commit_c2 ''update docs'',
       patch_ref_c2 internal_fault]) \<and>
   http_method (update_ref_request host0 ''ghs_token'' ''c2'') = ''PATCH'' \<and>
   url (update_ref_request host0 ''ghs_token'' ''c2'') = refUrl host0 \<and>
   body (update_ref_request host0 ''ghs_token'' ''c2'') = Some (ref_body ''c2'' False) \<and>
   \<not> acknowledged internal_fault \<and>
   after_patch
     [get_ref_base1, get_commit_base1, Read_file ''/repo/README.md'' (Inr ''# demo''),
      post_tree_tree2 [blob_entry ''README.md'' ''# demo''], post_commit_c2 ''update docs'',
      patch_ref_c2 internal_fault] = [] \<and>
   isl (Inl (new_Error ''Failed to update reference: 500 - Internal Server Error'')
          :: thrown + simplifiedResult)"
proof -
  from reference_update_never_forced [OF disjI1 [OF run_500]] patch_500_issued
  have "http_method (update_ref_request host0 ''ghs_token'' ''c2'') = ''PATCH'' \<and>
        url (update_ref_request host0 ''ghs_token'' ''c2'') = refUrl host0 \<and>
        (\<exists>newSha. body (update_ref_request host0 ''ghs_token'' ''c2'') =
                     Some (ref_body newSha False)) \<and>
        after_patch
          [get_ref_base1, get_commit_base1, Read_file ''/repo/README.md'' (Inr ''# demo''),
           post_tree_tree2 [blob_entry ''README.md'' ''# demo''], post_commit_c2 ''update docs'',
           patch_ref_c2 internal_fault] = []"
    by blast
  then show ?thesis
    using run_500 internal_fault_refused by (simp add: update_ref_request_def)
qed

subsection \<open>C8: the message of the error handed to the caller\<close>

text \<open>
  C8. Whatever stage fails and whatever was thrown there, a failing \<^verbatim>\<open>commit_files\<close> or
  \<^verbatim>\<open>delete_files\<close> hands the caller an \<^verbatim>\<open>Error\<close> whose message is not empty: it is the
  message of the cause (its string form when the cause is not an \<^verbatim>\<open>Error\<close>), and a
  fallback text where that is empty, \<^verbatim>\<open>undefined\<close> or \<^verbatim>\<open>[object Object]\<close>.
\<close>

theorem failure_has_message:
  assumes "commit_files h r files msg = (Inl e, tr) \<or> delete_files h r files msg = (Inl e, tr)"
  shows "instanceof_Error e \<and> message e \<noteq> [] \<and>
         (\<exists>(cause::thrown) failed_to.
            (failed_to = ''Failed to commit files: '' \<or>
             failed_to = ''Failed to delete files: '') \<and>
            message e =
              (let errorMessage =
                     (if instanceof_Error cause then message cause else to_String cause)
               in if errorMessage = [] \<or> errorMessage = ''undefined'' \<or>
                     errorMessage = ''[object Object]''
                  then (if instanceof_Error cause \<and> stack cause \<noteq> []
                        then failed_to @ takeWhile (\<lambda>c. c \<noteq> CHR 0x0A) (stack cause)
                        else failed_to @ ''Unknown error occurred'')
                  else errorMessage))"
proof -
  from assms obtain cause failed_to where
    f: "failed_to = ''Failed to commit files: '' \<or> failed_to = ''Failed to delete files: ''"
    and e: "e = rethrow failed_to cause"
    unfolding commit_files_def delete_files_def catch_Inl_iff by blast
  from f have "failed_to \<noteq> []" by auto
  then have 1: "instanceof_Error e" and 2: "message e \<noteq> []"
    unfolding e using rethrow_is_Error rethrow_message_nonempty by auto
  have m: "message e =
              (let errorMessage =
                     (if instanceof_Error cause then message cause else to_String cause)
               in if errorMessage = [] \<or> errorMessage = ''undefined'' \<or>
                     errorMessage = ''[object Object]''
                  then (if instanceof_Error cause \<and> stack cause \<noteq> []
                        then failed_to @ takeWhile (\<lambda>c. c \<noteq> CHR 0x0A) (stack cause)
                        else failed_to @ ''Unknown error occurred'')
                  else errorMessage)"
    unfolding e by (simp add: rethrow_def Let_def message_new_Error truthy_def)
  have "\<exists>(cause::thrown) failed_to.
            (failed_to = ''Failed to commit files: '' \<or>
             failed_to = ''Failed to delete files: '') \<and>
            message e =
              (let errorMessage =
                     (if instanceof_Error cause then message cause else to_String cause)
               in if errorMessage = [] \<or> errorMessage = ''undefined'' \<or>
                     errorMessage = ''[object Object]''
                  then (if instanceof_Error cause \<and> stack cause \<noteq> []
                        then failed_to @ takeWhile (\<lambda>c. c \<noteq> CHR 0x0A) (stack cause)
                        else failed_to @ ''Unknown error occurred'')
                  else errorMessage)"
    apply (rule exI [of _ cause])
    apply (rule exI [of _ failed_to])
    using f m by (rule conjI)
  with 1 2 show ?thesis by simp
qed

theorem failure_has_message_witness:
  "commit_files host0 remote_opaque [''README.md''] ''update docs'' =
     (Inl (new_Error ''Failed to commit files: Unknown error occurred''),
      [Get_ref (ref_request host0 ''ghs_token'') (Rejects plain_object)]) \<and>
   instanceof_Error (new_Error ''Failed to commit files: Unknown error occurred'') \<and>
   message (new_Error ''Failed to commit files: Unknown error occurred'') \<noteq> []"
proof -
  note v = failure_has_message [OF disjI1 [OF run_opaque]]
  from run_opaque v [THEN conjunct1] v [THEN conjunct2, THEN conjunct1]
  show ?thesis by (intro conjI)
qed

subsection \<open>C9: where the files of a commit are read\<close>

text \<open>
  C9 as stated does not hold. One leading slash is stripped, so a path that begins with
  two slashes still begins with a slash afterwards: step 3 then takes its branch for
  absolute paths and reads the file at that absolute location, not under the repository
  root.
\<close>

theorem absolute_read_counterexample:
  "processedFiles [''//etc/passwd''] = [''/etc/passwd''] \<and>
   fullPath host0 ''/etc/passwd'' = ''/etc/passwd'' \<and>
   join host0 (REPO_DIR host0) ''/etc/passwd'' = ''/repo/etc/passwd'' \<and>
   commit_files host0 remote_ok [''//etc/passwd''] ''update docs'' =
     (Inr (simplified new_commit_c2 ''files'' [''/etc/passwd''] (GitHubTree ''tree2'')),
      [get_ref_base1, get_commit_base1, Read_file ''/etc/passwd'' (Inr ''root:x:0:0''),
       post_tree_tree2 [blob_entry ''/etc/passwd'' ''root:x:0:0''], post_commit_c2 ''update docs'',
       patch_ref_c2 (replies 200 ''ref'' ())])"
  by code_simp

text \<open>
  C9, amended. \<^verbatim>\<open>commit_files\<close> strips exactly one leading slash from a path that has
  one. Once the token is present and steps 1 and 2 have succeeded, every file is read, in
  the order of the list: at the repository root joined with the remainder, unless the
  remainder still begins with a slash (the path began with two slashes), and then at the
  remainder, as an absolute location. No path is rejected: with the token present the
  first request is always issued; step 3 fails only when a read is rejected, with
  \<^verbatim>\<open>Failed to read file\<close>, and when every read succeeds the tree is requested with one
  entry for each path. An invocation without any effect failed for the missing token.
\<close>

theorem commit_files_read_locations:
  assumes "commit_files h r files msg = (res, tr)"
  shows "processedFiles files = map (\<lambda>f. if startsWith_slash f then drop 1 f else f) files \<and>
         (\<forall>p. fullPath h p = (if startsWith_slash p then p else join h (REPO_DIR h) p)) \<and>
         (\<forall>full c. Read_file full c \<in> set tr \<longrightarrow>
            c = readFile h full \<and>
            (\<exists>f\<in>set files.
               full = (if \<not> startsWith_slash f then join h (REPO_DIR h) f
                       else if \<not> startsWith_slash (drop 1 f) then join h (REPO_DIR h) (drop 1 f)
                       else drop 1 f))) \<and>
         (\<forall>token. GITHUB_TOKEN h = Some token \<and> token \<noteq> [] \<longrightarrow>
            (\<exists>rest. tr = Get_ref (ref_request h token) (fetch_ref r (ref_request h token)) # rest)) \<and>
         (tr = [] \<longrightarrow> res = Inl (new_Error ''GITHUB_TOKEN environment variable is required'')) \<and>
         (\<forall>token refResp refData commitResp commitData.
            GITHUB_TOKEN h = Some token \<and> token \<noteq> [] \<and>
            fetch_ref r (ref_request h token) = Resolves refResp \<and> ok refResp \<and>
            body_json refResp = Inr refData \<and>
            fetch_commit r (commit_request h token (object_sha refData)) = Resolves commitResp \<and>
            ok commitResp \<and> body_json commitResp = Inr commitData \<longrightarrow>
            (\<exists>rest.
               tr = Get_ref (ref_request h token) (Resolves refResp) #
                    Get_commit (commit_request h token (object_sha refData)) (Resolves commitResp) #
                    map (\<lambda>p. Read_file (fullPath h p) (readFile h (fullPath h p)))
                      (processedFiles files) @ rest \<and>
               ((\<exists>p\<in>set (processedFiles files). isl (readFile h (fullPath h p))) \<longrightarrow>
                  rest = [] \<and>
                  (\<exists>p\<in>set (processedFiles files). \<exists>cause.
                     readFile h (fullPath h p) = Inl cause \<and>
                     res = Inl (new_Error
                             (''Failed to read file '' @ [CHR 0x27] @ fullPath h p @ [CHR 0x27] @
                              '': '' @
                              (if message cause = [] then to_String cause else message cause))))) \<and>
               ((\<forall>p\<in>set (processedFiles files). \<not> isl (readFile h (fullPath h p))) \<longrightarrow>
                  (\<exists>contents rest'.
                     list_all2 (\<lambda>p c. readFile h (fullPath h p) = Inr c)
                       (processedFiles files) contents \<and>
                     rest =
                       Post_tree
                         \<lparr>http_method = ''POST'', url = treeUrl h, headers = write_headers token,
                          body = Some (tree_body (tree_sha commitData)
                                   (map2 (\<lambda>p c. \<lparr>path = p, mode = ''100644'',
                                                   entry_type = ''blob'',
                                                   entry_value = content c\<rparr>)
                                      (processedFiles files) contents))\<rparr>
                         (fetch_create_tree r
                            \<lparr>http_method = ''POST'', url = treeUrl h,
                             headers = write_headers token,
                             body = Some (tree_body (tree_sha commitData)
                                      (map2 (\<lambda>p c. \<lparr>path = p, mode = ''100644'',
                                                      entry_type = ''blob'',
                                                      entry_value = content c\<rparr>)
                                         (processedFiles files) contents))\<rparr>) #
                       rest'))))"
proof -
  from assms have res: "res = fst (commit_files h r files msg)"
    and tr: "tr = snd (commit_files h r files msg)" by simp_all
  have reads: "c = readFile h full \<and> (\<exists>f\<in>set files.
               full = (if \<not> startsWith_slash f then join h (REPO_DIR h) f
                       else if \<not> startsWith_slash (drop 1 f) then join h (REPO_DIR h) (drop 1 f)
                       else drop 1 f))"
    if "Read_file full c \<in> set tr" for full c
  proof -
    from that have "Read_file full c \<in>
        set (map (\<lambda>p. Read_file (fullPath h p) (readFile h (fullPath h p))) (processedFiles files))"
      unfolding tr snd_commit_files snd_write_commit by (auto split: sum.splits)
    then obtain f where "f \<in> set files"
      "full = fullPath h (if startsWith_slash f then drop 1 f else f)" "c = readFile h full"
      unfolding processedFiles_eq by auto
    then show ?thesis by (auto simp: fullPath_def)
  qed
  have first: "\<exists>rest. tr = Get_ref (ref_request h token) (fetch_ref r (ref_request h token)) # rest"
    if "GITHUB_TOKEN h = Some token \<and> token \<noteq> []" for token
  proof -
    from that have "fst (githubToken h) = Inr token" by (simp add: githubToken_Inr)
    then show ?thesis unfolding tr snd_commit_files by simp
  qed
  have none: "res = Inl (new_Error ''GITHUB_TOKEN environment variable is required'')" if "tr = []"
  proof (cases "fst (githubToken h)")
    case (Inl e)
    then have "e = new_Error ''GITHUB_TOKEN environment variable is required''"
      by (auto simp: githubToken_def split: option.splits if_splits)
    then show ?thesis unfolding res fst_commit_files using Inl by (simp add: rethrow_token_error)
  next
    case (Inr token)
    then show ?thesis using that unfolding tr snd_commit_files by simp
  qed
  have step3: "\<exists>rest.
               tr = Get_ref (ref_request h token) (Resolves refResp) #
                    Get_commit (commit_request h token (object_sha refData)) (Resolves commitResp) #
                    map (\<lambda>p. Read_file (fullPath h p) (readFile h (fullPath h p)))
                      (processedFiles files) @ rest \<and>
               ((\<exists>p\<in>set (processedFiles files). isl (readFile h (fullPath h p))) \<longrightarrow>
                  rest = [] \<and>
                  (\<exists>p\<in>set (processedFiles files). \<exists>cause.
                     readFile h (fullPath h p) = Inl cause \<and>
                     res = Inl (new_Error
                             (''Failed to read file '' @ [CHR 0x27] @ fullPath h p @ [CHR 0x27] @
                              '': '' @
                              (if message cause = [] then to_String cause else message cause))))) \<and>
               ((\<forall>p\<in>set (processedFiles files). \<not> isl (readFile h (fullPath h p))) \<longrightarrow>
                  (\<exists>contents rest'.
                     list_all2 (\<lambda>p c. readFile h (fullPath h p) = Inr c)
                       (processedFiles files) contents \<and>
                     rest =
                       Post_tree
                         \<lparr>http_method = ''POST'', url = treeUrl h, headers = write_headers token,
                          body = Some (tree_body (tree_sha commitData)
                                   (map2 (\<lambda>p c. \<lparr>path = p, mode = ''100644'',
                                                   entry_type = ''blob'',
                                                   entry_value = content c\<rparr>)
                                      (processedFiles files) contents))\<rparr>
                         (fetch_create_tree r
                            \<lparr>http_method = ''POST'', url = treeUrl h,
                             headers = write_headers token,
                             body = Some (tree_body (tree_sha commitData)
                                      (map2 (\<lambda>p c. \<lparr>path = p, mode = ''100644'',
                                                      entry_type = ''blob'',
                                                      entry_value = content c\<rparr>)
                                         (processedFiles files) contents))\<rparr>) #
                       rest'))"
    if a: "GITHUB_TOKEN h = Some token \<and> token \<noteq> [] \<and>
            fetch_ref r (ref_request h token) = Resolves refResp \<and> ok refResp \<and>
            body_json refResp = Inr refData \<and>
            fetch_commit r (commit_request h token (object_sha refData)) = Resolves commitResp \<and>
            ok commitResp \<and> body_json commitResp = Inr commitData"
    for token refResp refData commitResp commitData
  proof -
    let ?ps = "processedFiles files"
    let ?reads = "map (\<lambda>p. Read_file (fullPath h p) (readFile h (fullPath h p))) ?ps"
    let ?head = "[Get_ref (ref_request h token) (Resolves refResp),
                  Get_commit (commit_request h token (object_sha refData)) (Resolves commitResp)]"
    from a have t: "fst (githubToken h) = Inr token" by (simp add: githubToken_Inr)
    from a have b: "fst (get_branch_reference h r token) = Inr (object_sha refData)"
      by (auto simp: get_branch_reference_Inr)
    from a have c: "fst (get_base_commit h r token (object_sha refData)) = Inr (tree_sha commitData)"
      by (auto simp: get_base_commit_Inr)
    show ?thesis
    proof (cases "fst (read_tree_entries h ?ps)")
      case (Inl e)
      have tr': "tr = ?head @ ?reads @ []"
        unfolding tr snd_commit_files using t b c Inl a by simp
      have res': "res = Inl (rethrow ''Failed to commit files: '' e)"
        unfolding res fst_commit_files using t b c Inl by simp
      from read_tree_entries_Inl [OF Inl] obtain p cause where
        p: "p \<in> set ?ps" "readFile h (fullPath h p) = Inl cause"
           "e = read_failure (fullPath h p) cause" by blast
      have "res = Inl (new_Error
                   (''Failed to read file '' @ [CHR 0x27] @ fullPath h p @ [CHR 0x27] @ '': '' @
                    (if message cause = [] then to_String cause else message cause)))"
        unfolding res' p(3) rethrow_read_failure
        by (simp add: read_failure_def truthy_def)
      with p have named: "\<exists>p\<in>set ?ps. \<exists>cause.
                     readFile h (fullPath h p) = Inl cause \<and>
                     res = Inl (new_Error
                             (''Failed to read file '' @ [CHR 0x27] @ fullPath h p @ [CHR 0x27] @
                              '': '' @
                              (if message cause = [] then to_String cause else message cause)))"
        by blast
      have rejected: "\<not> (\<forall>p\<in>set ?ps. \<not> isl (readFile h (fullPath h p)))"
        using p(1,2) by (auto intro!: bexI [of _ p])
      show ?thesis
        apply (rule exI [of _ "[]"])
        using tr' named rejected by simp
    next
      case (Inr es)
      then obtain cs where cs: "list_all2 (\<lambda>p c. readFile h (fullPath h p) = Inr c) ?ps cs"
        and es: "es = map2 blob_entry ?ps cs"
        unfolding read_tree_entries_Inr by blast
      let ?entries = "map2 (\<lambda>p c. \<lparr>path = p, mode = ''100644'', entry_type = ''blob'',
                                    entry_value = content c\<rparr>) ?ps cs"
      let ?req = "\<lparr>http_method = ''POST'', url = treeUrl h, headers = write_headers token,
                   body = Some (tree_body (tree_sha commitData) ?entries)\<rparr>"
      have es': "es = ?entries" unfolding es by (auto simp: blob_entry_def)
      have req: "tree_request h token (tree_sha commitData) es = ?req"
        unfolding es' by (simp add: tree_request_def)
      have all_read: "\<not> (\<exists>p\<in>set ?ps. isl (readFile h (fullPath h p)))"
        using Inr read_tree_entries_fails_iff [of h ?ps] by simp
      obtain rest' where w: "snd (write_commit h r token msg (object_sha refData)
                               (tree_sha commitData) es ''files'' ?ps) =
                             Post_tree ?req (fetch_create_tree r ?req) # rest'"
        unfolding snd_write_commit req by blast
      have tr': "tr = ?head @ ?reads @ (Post_tree ?req (fetch_create_tree r ?req) # rest')"
        unfolding tr snd_commit_files using t b c Inr a w by simp
      show ?thesis
        apply (rule exI [of _ "Post_tree ?req (fetch_create_tree r ?req) # rest'"])
        using tr' all_read cs by auto
    qed
  qed
  have full: "\<forall>p. fullPath h p = (if startsWith_slash p then p else join h (REPO_DIR h) p)"
    by (simp add: fullPath_def)
  from reads first none step3 full processedFiles_eq [of files] show ?thesis by blast
qed

theorem commit_files_read_locations_witness:
  "commit_files host0 remote_ok [''//etc/passwd''] ''update docs'' =
     (Inr (simplified new_commit_c2 ''files'' [''/etc/passwd''] (GitHubTree ''tree2'')),
      [get_ref_base1, get_commit_base1, Read_file ''/etc/passwd'' (Inr ''root:x:0:0''),
       post_tree_tree2 [blob_entry ''/etc/passwd'' ''root:x:0:0''], post_commit_c2 ''update docs'',
       patch_ref_c2 (replies 200 ''ref'' ())]) \<and>
   readFile host0 ''/etc/passwd'' = Inr ''root:x:0:0'' \<and>
   startsWith_slash ''//etc/passwd'' \<and> startsWith_slash (drop 1 ''//etc/passwd'') \<and>
   drop 1 ''//etc/passwd'' = ''/etc/passwd'' \<and>
   processedFiles [''//etc/passwd''] = [''/etc/passwd''] \<and>
   fullPath host0 ''/etc/passwd'' = ''/etc/passwd'' \<and>
   GITHUB_TOKEN host0 = Some ''ghs_token'' \<and>
   (\<exists>rest contents rest'.
      [get_ref_base1, get_commit_base1, Read_file ''/etc/passwd'' (Inr ''root:x:0:0''),
       post_tree_tree2 [blob_entry ''/etc/passwd'' ''root:x:0:0''], post_commit_c2 ''update docs'',
       patch_ref_c2 (replies 200 ''ref'' ())] =
        Get_ref (ref_request host0 ''ghs_token'')
          (Resolves \<lparr>status = 200, body_text = Inr ''ref'',
                     body_json = Inr (GitHubRef ''base1'')\<rparr>) #
        Get_commit (commit_request host0 ''ghs_token'' ''base1'')
          (Resolves \<lparr>status = 200, body_text = Inr ''commit'',
                     body_json = Inr (GitHubCommit ''tree1'')\<rparr>) #
        [Read_file ''/etc/passwd'' (readFile host0 ''/etc/passwd'')] @ rest \<and>
      list_all2 (\<lambda>p c. readFile host0 (fullPath host0 p) = Inr c) [''/etc/passwd''] contents \<and>
      rest =
        Post_tree
          \<lparr>http_method = ''POST'', url = treeUrl host0, headers = write_headers ''ghs_token'',
           body = Some (tree_body ''tree1''
                    (map2 (\<lambda>p c. \<lparr>path = p, mode = ''100644'', entry_type = ''blob'',
                                    entry_value = content c\<rparr>)
                       [''/etc/passwd''] contents))\<rparr>
          (fetch_create_tree remote_ok
             \<lparr>http_method = ''POST'', url = treeUrl host0, headers = write_headers ''ghs_token'',
              body = Some (tree_body ''tree1''
                       (map2 (\<lambda>p c. \<lparr>path = p, mode = ''100644'', entry_type = ''blob'',
                                       entry_value = content c\<rparr>)
                          [''/etc/passwd''] contents))\<rparr>) #
        rest')"
proof -
  note v = commit_files_read_locations [OF run_absolute]
  have pf: "processedFiles [''//etc/passwd''] = [''/etc/passwd'']"
    using v [THEN conjunct1] by (simp add: startsWith_slash_def)
  have fp: "fullPath host0 ''/etc/passwd'' = ''/etc/passwd''"
    using v [THEN conjunct2, THEN conjunct1, THEN spec, of "''/etc/passwd''"]
    by (simp add: startsWith_slash_def)
  from v read_absolute_issued
  have rd: "Inr ''root:x:0:0'' = readFile host0 ''/etc/passwd''" by blast
  note s = v [THEN conjunct2, THEN conjunct2, THEN conjunct2, THEN conjunct2, THEN conjunct2,
              rule_format, OF steps_resolve]
  from s obtain rest where
    t: "[get_ref_base1, get_commit_base1, Read_file ''/etc/passwd'' (Inr ''root:x:0:0''),
         post_tree_tree2 [blob_entry ''/etc/passwd'' ''root:x:0:0''], post_commit_c2 ''update docs'',
         patch_ref_c2 (replies 200 ''ref'' ())] =
        Get_ref (ref_request host0 ''ghs_token'')
          (Resolves \<lparr>status = 200, body_text = Inr ''ref'',
                     body_json = Inr (GitHubRef ''base1'')\<rparr>) #
        Get_commit (commit_request host0 ''ghs_token'' (object_sha (GitHubRef ''base1'')))
          (Resolves \<lparr>status = 200, body_text = Inr ''commit'',
                     body_json = Inr (GitHubCommit ''tree1'')\<rparr>) #
        map (\<lambda>p. Read_file (fullPath host0 p) (readFile host0 (fullPath host0 p)))
          (processedFiles [''//etc/passwd'']) @ rest"
    and a: "(\<forall>p\<in>set (processedFiles [''//etc/passwd'']).
               \<not> isl (readFile host0 (fullPath host0 p))) \<longrightarrow>
            (\<exists>contents rest'.
               list_all2 (\<lambda>p c. readFile host0 (fullPath host0 p) = Inr c)
                 (processedFiles [''//etc/passwd'']) contents \<and>
               rest =
                 Post_tree
                   \<lparr>http_method = ''POST'', url = treeUrl host0,
                    headers = write_headers ''ghs_token'',
                    body = Some (tree_body (tree_sha (GitHubCommit ''tree1''))
                             (map2 (\<lambda>p c. \<lparr>path = p, mode = ''100644'', entry_type = ''blob'',
                                             entry_value = content c\<rparr>)
                                (processedFiles [''//etc/passwd'']) contents))\<rparr>
                   (fetch_create_tree remote_ok
                      \<lparr>http_method = ''POST'', url = treeUrl host0,
                       headers = write_headers ''ghs_token'',
                       body = Some (tree_body (tree_sha (GitHubCommit ''tree1''))
                                (map2 (\<lambda>p c. \<lparr>path = p, mode = ''100644'',
                                                entry_type = ''blob'',
                                                entry_value = content c\<rparr>)
                                   (processedFiles [''//etc/passwd'']) contents))\<rparr>) #
                 rest')"
    by blast
  from a [THEN mp, OF absolute_readable] obtain contents rest' where
    c: "list_all2 (\<lambda>p c. readFile host0 (fullPath host0 p) = Inr c)
          (processedFiles [''//etc/passwd'']) contents"
    and r: "rest =
                 Post_tree
                   \<lparr>http_method = ''POST'', url = treeUrl host0,
                    headers = write_headers ''ghs_token'',
                    body = Some (tree_body (tree_sha (GitHubCommit ''tree1''))
                             (map2 (\<lambda>p c. \<lparr>path = p, mode = ''100644'', entry_type = ''blob'',
                                             entry_value = content c\<rparr>)
                                (processedFiles [''//etc/passwd'']) contents))\<rparr>
                   (fetch_create_tree remote_ok
                      \<lparr>http_method = ''POST'', url = treeUrl host0,
                       headers = write_headers ''ghs_token'',
                       body = Some (tree_body (tree_sha (GitHubCommit ''tree1''))
                                (map2 (\<lambda>p c. \<lparr>path = p, mode = ''100644'',
                                                entry_type = ''blob'',
                                                entry_value = content c\<rparr>)
                                   (processedFiles [''//etc/passwd'']) contents))\<rparr>) #
                 rest'"
    by blast
  have sl: "startsWith_slash ''//etc/passwd'' \<and> startsWith_slash (drop 1 ''//etc/passwd'') \<and>
     drop 1 ''//etc/passwd'' = ''/etc/passwd''" by (simp add: startsWith_slash_def)
  have ex: "\<exists>rest contents rest'.
      [get_ref_base1, get_commit_base1, Read_file ''/etc/passwd'' (Inr ''root:x:0:0''),
       post_tree_tree2 [blob_entry ''/etc/passwd'' ''root:x:0:0''], post_commit_c2 ''update docs'',
       patch_ref_c2 (replies 200 ''ref'' ())] =
        Get_ref (ref_request host0 ''ghs_token'')
          (Resolves \<lparr>status = 200, body_text = Inr ''ref'',
                     body_json = Inr (GitHubRef ''base1'')\<rparr>) #
        Get_commit (commit_request host0 ''ghs_token'' ''base1'')
          (Resolves \<lparr>status = 200, body_text = Inr ''commit'',
                     body_json = Inr (GitHubCommit ''tree1'')\<rparr>) #
        [Read_file ''/etc/passwd'' (readFile host0 ''/etc/passwd'')] @ rest \<and>
      list_all2 (\<lambda>p c. readFile host0 (fullPath host0 p) = Inr c) [''/etc/passwd''] contents \<and>
      rest =
        Post_tree
          \<lparr>http_method = ''POST'', url = treeUrl host0, headers = write_headers ''ghs_token'',
           body = Some (tree_body ''tree1''
                    (map2 (\<lambda>p c. \<lparr>path = p, mode = ''100644'', entry_type = ''blob'',
                                    entry_value = content c\<rparr>)
                       [''/etc/passwd''] contents))\<rparr>
          (fetch_create_tree remote_ok
             \<lparr>http_method = ''POST'', url = treeUrl host0, headers = write_headers ''ghs_token'',
              body = Some (tree_body ''tree1''
                       (map2 (\<lambda>p c. \<lparr>path = p, mode = ''100644'', entry_type = ''blob'',
                                       entry_value = content c\<rparr>)
                          [''/etc/passwd''] contents))\<rparr>) #
        rest'"
    apply (rule exI [of _ rest], rule exI [of _ contents], rule exI [of _ rest'])
    using t c r unfolding pf fp by simp
  from run_absolute rd [symmetric] sl pf fp host0_token ex show ?thesis by blast
qed

subsection \<open>C10: the containment check is a prefix test\<close>

text \<open>
  C10. A path of \<^verbatim>\<open>delete_files\<close> with a leading slash that starts with the working
  directory as a string is accepted, whatever follows the prefix, and submitted without
  its first \<open>length cwd + 1\<close> characters: the working directory followed by
  \<^verbatim>\<open>-other/file\<close> becomes \<^verbatim>\<open>other/file\<close>, and the working directory itself becomes the
  empty path. The entries of the tree request are the paths so cut.
\<close>

theorem containment_check_is_prefix_test:
  "(startsWith_slash p \<and> startsWith p (cwd h) \<longrightarrow>
      processedPath (cwd h) p = Inr (drop (length (cwd h) + 1) p)) \<and>
   (startsWith_slash (cwd h) \<longrightarrow>
      processedPath (cwd h) (cwd h @ ''-other/file'') = Inr ''other/file'' \<and>
      processedPath (cwd h) (cwd h) = Inr []) \<and>
   ((\<forall>p\<in>set paths. startsWith_slash p \<longrightarrow> startsWith p (cwd h)) \<longrightarrow>
      (\<forall>req rep. Post_tree req rep \<in> set (snd (delete_files h r paths msg)) \<longrightarrow>
         (\<exists>baseTreeSha. body req =
            Some (tree_body baseTreeSha
                    (map (\<lambda>p. \<lparr>path = (if startsWith_slash p
                                         then drop (length (cwd h) + 1) p else p),
                                 mode = ''100644'', entry_type = ''blob'',
                                 entry_value = sha_null\<rparr>)
                       paths)))))"
proof (intro conjI impI allI)
  assume "startsWith_slash p \<and> startsWith p (cwd h)"
  then show "processedPath (cwd h) p = Inr (drop (length (cwd h) + 1) p)"
    by (simp add: processedPath_def slice_def)
next
  assume "startsWith_slash (cwd h)"
  then show "processedPath (cwd h) (cwd h @ ''-other/file'') = Inr ''other/file''"
    by (cases "cwd h") (auto simp: processedPath_def startsWith_slash_def startsWith_def slice_def)
next
  assume "startsWith_slash (cwd h)"
  then show "processedPath (cwd h) (cwd h) = Inr []"
    by (cases "cwd h") (auto simp: processedPath_def startsWith_slash_def startsWith_def slice_def)
next
  fix req rep
  assume ok: "\<forall>p\<in>set paths. startsWith_slash p \<longrightarrow> startsWith p (cwd h)"
    and ev: "Post_tree req rep \<in> set (snd (delete_files h r paths msg))"
  let ?ps = "map (\<lambda>p. if startsWith_slash p then slice p (length (cwd h) + 1) else p) paths"
  from ok have pp: "processedPaths (cwd h) paths = Inr ?ps"
    by (induction paths) (auto simp: processedPath_def)
  from ev have "\<exists>token baseSha baseTreeSha. req = tree_request h token baseTreeSha (map delete_entry ?ps)"
    unfolding snd_delete_files snd_write_commit pp by (auto split: sum.splits)
  then show "\<exists>baseTreeSha. body req =
            Some (tree_body baseTreeSha
                    (map (\<lambda>p. \<lparr>path = (if startsWith_slash p
                                         then drop (length (cwd h) + 1) p else p),
                                 mode = ''100644'', entry_type = ''blob'',
                                 entry_value = sha_null\<rparr>)
                       paths))"
    by (auto simp: tree_request_def delete_entry_def slice_def comp_def if_distrib
          cong: if_cong)
qed

theorem containment_check_is_prefix_test_witness:
  "startsWith_slash ''/repo-other/file'' \<and> startsWith ''/repo-other/file'' (cwd host0) \<and>
   processedPath (cwd host0) ''/repo-other/file'' = Inr ''other/file'' \<and>
   processedPath (cwd host0) (cwd host0) = Inr [] \<and>
   delete_files host0 remote_ok [''/repo-other/file''] ''remove'' =
     (Inr (simplified new_commit_c2 ''deletedFiles'' [''other/file''] (GitHubTree ''tree2'')),
      [get_ref_base1, get_commit_base1,
       post_tree_tree2
         [\<lparr>path = ''other/file'', mode = ''100644'', entry_type = ''blob'',
           entry_value = sha_null\<rparr>],
       post_commit_c2 ''remove'', patch_ref_c2 (replies 200 ''ref'' ())]) \<and>
   (\<exists>baseTreeSha.
      body (tree_request host0 ''ghs_token'' ''tree1'' [delete_entry ''other/file'']) =
        Some (tree_body baseTreeSha
                (map (\<lambda>p. \<lparr>path = (if startsWith_slash p
                                     then drop (length (cwd host0) + 1) p else p),
                             mode = ''100644'', entry_type = ''blob'',
                             entry_value = sha_null\<rparr>)
                   [''/repo-other/file''])))"
proof -
  note v = containment_check_is_prefix_test
             [of "''/repo-other/file''" host0 "[''/repo-other/file'']" remote_ok "''remove''"]
  from v [THEN conjunct1, rule_format, OF sibling_path]
  have 1: "processedPath (cwd host0) ''/repo-other/file'' = Inr ''other/file''"
    unfolding sibling_path_dropped .
  from v [THEN conjunct2, THEN conjunct1, rule_format, OF cwd_absolute]
  have 2: "processedPath (cwd host0) (cwd host0) = Inr []" by blast
  note w = v [THEN conjunct2, THEN conjunct2, THEN mp, OF sibling_all_inside]
  from w [rule_format, OF post_tree_sibling_issued]
  have 3: "\<exists>baseTreeSha.
      body (tree_request host0 ''ghs_token'' ''tree1'' [delete_entry ''other/file'']) =
        Some (tree_body baseTreeSha
                (map (\<lambda>p. \<lparr>path = (if startsWith_slash p
                                     then drop (length (cwd host0) + 1) p else p),
                             mode = ''100644'', entry_type = ''blob'',
                             entry_value = sha_null\<rparr>)
                   [''/repo-other/file'']))" .
  have run: "delete_files host0 remote_ok [''/repo-other/file''] ''remove'' =
     (Inr (simplified new_commit_c2 ''deletedFiles'' [''other/file''] (GitHubTree ''tree2'')),
      [get_ref_base1, get_commit_base1,
       post_tree_tree2
         [\<lparr>path = ''other/file'', mode = ''100644'', entry_type = ''blob'',
           entry_value = sha_null\<rparr>],
       post_commit_c2 ''remove'', patch_ref_c2 (replies 200 ''ref'' ())])"
    using run_delete_sibling by (simp add: delete_entry_def)
  from 1 2 3 run sibling_path show ?thesis by blast
qed

end
